theory Spec2Isabelle
  imports Main "HOL-Library.AList"
begin

section \<open>HEOS queue management service calls\<close>

text \<open>
  A shallow embedding of \<^verbatim>\<open>custom_components/heos_queue_mgr/__init__.py\<close>.
  Every coroutine of the source is a function that takes the state it can touch and
  returns its result together with the new state. The source awaits one device after the
  other inside a \<^verbatim>\<open>for\<close> loop, so the model is sequential. An exception is the left
  summand of the result.
\<close>

subsection \<open>Data model\<close>

text \<open>
  Exceptions. \<^verbatim>\<open>except HeosError\<close> catches \<open>HeosError\<close> only: every other
  exception leaves the handler.
\<close>

datatype exn = is_HeosError: HeosError string | TypeError string | OtherException string

text \<open>The parameter dictionary of a remote command: \<^verbatim>\<open>{"pid": pid, "qid": ...}\<close>.\<close>

datatype pval = VInt int | VStr string

type_synonym params = "(string \<times> pval) list"

text \<open>
  \<^verbatim>\<open>QueuedItemDict\<close> and \<^verbatim>\<open>NowPlayingDict\<close>. A queued item carries further protocol
  fields that the source never reads.
\<close>

datatype queued_item = QueuedItemDict (item_qid: int) (item_rest: "(string \<times> string) list")

datatype media_type = Song | Station

datatype now_playing = NowPlayingDict (np_type: media_type) (np_qid: int)

text \<open>
  The payload of a response is one of the three shapes the source handles: nothing, a list
  of queued items, or the now-playing dictionary. \<^verbatim>\<open>cast\<close> does nothing at run time,
  so a payload of another shape than the one expected is used as it is.
\<close>

datatype payload = PNone | PQueue "queued_item list" | PNowPlaying now_playing

record response =
  result :: bool
  payload :: payload

text \<open>
  A connection is named by a number; the channel says what the remote side answers to a
  command on a connection, and how the remote side changes. \<open>'w\<close> is the state of the
  remote devices.
\<close>

type_synonym conn = nat

type_synonym 'w channel = "conn \<Rightarrow> string \<Rightarrow> params \<Rightarrow> 'w \<Rightarrow> (exn + response) \<times> 'w"

text \<open>The logger. \<open>EXCEPTION\<close> is \<^verbatim>\<open>_LOGGER.exception\<close>: an error with a traceback.\<close>

datatype level = DEBUG | WARNING | ERROR | EXCEPTION

datatype log_arg = AStr string | AInt int | AObj

datatype log_entry = LogEntry (lvl: level) (fmt: string) (args: "log_arg list")

text \<open>
  What a service call can touch: the remote devices, and two records of what it did, the
  commands it sent (oldest first) and the entries it logged.
\<close>

record 'w env =
  world :: 'w
  sent :: "(conn \<times> string \<times> params) list"
  logged :: "log_entry list"

text \<open>
  Entities of the host. A \<^verbatim>\<open>HeosMediaPlayer\<close> holds its player id and its connection
  (\<^verbatim>\<open>entity._player._player_id\<close>, \<^verbatim>\<open>entity._player._heos._connection\<close>).
\<close>

datatype entity =
    is_heos: HeosMediaPlayer (entity_id_of: string) (player_id_of: int) (connection_of: conn)
  | OtherEntity (entity_id_of: string)

record service_call =
  target :: "string list"
  data :: "(string \<times> int) list"
  return_response :: bool

text \<open>
  A platform of the host is what its \<^verbatim>\<open>async_extract_from_service\<close> returns for a
  service call; the host holds its platforms by integration name.
\<close>

type_synonym platform = "service_call \<Rightarrow> entity list"

type_synonym hass = "(string \<times> platform) list"

definition async_get_platforms :: "hass \<Rightarrow> string \<Rightarrow> platform list" where
  "async_get_platforms hass integration_name =
     map snd (filter (\<lambda>p. fst p = integration_name) hass)"

datatype service_response =
    GetQueueResponse (count: nat) (queues: "(string \<times> payload) list") (errors: "string list")
  | RemoveFromQueueResponse (errors: "string list")

text \<open>
  A per-device coroutine \<^verbatim>\<open>ConnectionCallback\<close>. \<open>'v\<close> holds the variables of the
  enclosing function that the coroutine updates.
\<close>

type_synonym ('v, 'w) connection_callback =
  "string \<Rightarrow> int \<Rightarrow> conn \<Rightarrow> 'v \<times> 'w env \<Rightarrow> (exn + unit) \<times> ('v \<times> 'w env)"

subsection \<open>Logging and the command channel\<close>

definition logger :: "level \<Rightarrow> string \<Rightarrow> log_arg list \<Rightarrow> 'w env \<Rightarrow> 'w env" where
  "logger l f as e = e\<lparr>logged := logged e @ [LogEntry l f as]\<rparr>"

text \<open>\<^verbatim>\<open>await connection.command(name, params)\<close>: the command is sent, the remote side answers.\<close>

definition command ::
  "'w channel \<Rightarrow> conn \<Rightarrow> string \<Rightarrow> params \<Rightarrow> 'w env \<Rightarrow> (exn + response) \<times> 'w env" where
  "command chan c name ps e =
     (case chan c name ps (world e) of
        (r, w') \<Rightarrow> (r, e\<lparr>world := w', sent := sent e @ [(c, name, ps)]\<rparr>))"

subsection \<open>Python's \<^verbatim>\<open>str\<close> of an integer and \<^verbatim>\<open>",".join\<close>\<close>

definition digit_char :: "nat \<Rightarrow> char" where
  "digit_char d = ''0123456789'' ! d"

function str_nat :: "nat \<Rightarrow> string" where
  "str_nat n = (if n < 10 then [digit_char n] else str_nat (n div 10) @ [digit_char (n mod 10)])"
  by pat_completeness auto
termination
  by (relation "measure id") auto

declare str_nat.simps [simp del]

definition str_int :: "int \<Rightarrow> string" where
  "str_int i = (if i < 0 then CHR ''-'' # str_nat (nat (- i)) else str_nat (nat i))"

fun join :: "string \<Rightarrow> string list \<Rightarrow> string" where
  "join sep [] = []"
| "join sep [x] = x"
| "join sep (x # y # ys) = x @ sep @ join sep (y # ys)"

subsection \<open>The dispatch: \<^verbatim>\<open>async_exec_command\<close>\<close>

text \<open>
  The loop \<^verbatim>\<open>for entity in entities\<close> (lines 407 to 420). An entity that is no
  \<^verbatim>\<open>HeosMediaPlayer\<close> is logged and skipped. The callback is awaited with no
  \<^verbatim>\<open>try\<close> around it: when it raises, the loop ends there.
\<close>

fun for_entities ::
  "('v, 'w) connection_callback \<Rightarrow> entity list \<Rightarrow> 'v \<times> 'w env \<Rightarrow> (exn + unit) \<times> ('v \<times> 'w env)" where
  "for_entities cb [] s = (Inr (), s)"
| "for_entities cb (OtherEntity eid # es) s =
     for_entities cb es
       (fst s, logger WARNING ''Skipping non HEOS media player: %s'' [AStr eid] (snd s))"
| "for_entities cb (HeosMediaPlayer eid pid c # es) s =
     (case cb eid pid c s of
        (Inl x, s') \<Rightarrow> (Inl x, s')
      | (Inr u, s') \<Rightarrow> for_entities cb es s')"

text \<open>
  Lines 398 to 404. \<^verbatim>\<open>entities = {e for l in entity_list for e in l}\<close> is a set: an
  entity that several lists hold, or one list holds twice, is in it once. The order in
  which Python walks a set is not fixed; the model walks it in the order of \<open>remdups\<close>.
\<close>

definition entities :: "hass \<Rightarrow> service_call \<Rightarrow> entity list" where
  "entities hass call =
     (let entity_platforms = async_get_platforms hass ''heos'';
          entity_list = map (\<lambda>ep. ep call) entity_platforms
      in remdups (concat entity_list))"

definition async_exec_command ::
  "hass \<Rightarrow> service_call \<Rightarrow> ('v, 'w) connection_callback \<Rightarrow> 'v \<times> 'w env
     \<Rightarrow> (exn + unit) \<times> ('v \<times> 'w env)" where
  "async_exec_command hass call connection_callback s =
     for_entities connection_callback (entities hass call)
       (fst s, logger DEBUG ''operating on entities: %s'' [AObj] (snd s))"

subsection \<open>\<^verbatim>\<open>clear_queue\<close>\<close>

definition clear_queue_handler :: "'w channel \<Rightarrow> ('v, 'w) connection_callback" where
  "clear_queue_handler chan entity_id pid connection s =
     (case command chan connection ''player/clear_queue'' [(''pid'', VInt pid)] (snd s) of
        (Inr r, e1) \<Rightarrow> (Inr (), (fst s, e1))
      | (Inl x, e1) \<Rightarrow>
          (case x of
             HeosError m \<Rightarrow>
               (Inr (), (fst s,
                  logger EXCEPTION ''%s: error when clearing queue for %s''
                    [AStr ''clear_queue'', AStr entity_id] e1))
           | _ \<Rightarrow> (Inl x, (fst s, e1))))"

definition clear_queue_callback ::
  "hass \<Rightarrow> 'w channel \<Rightarrow> service_call \<Rightarrow> 'w env \<Rightarrow> (exn + service_response option) \<times> 'w env" where
  "clear_queue_callback hass chan call e0 =
     (case async_exec_command hass call (clear_queue_handler chan)
             ((), logger DEBUG ''%s service call: %s'' [AStr ''clear_queue'', AObj] e0) of
        (Inl x, s) \<Rightarrow> (Inl x, snd s)
      | (Inr u, s) \<Rightarrow> (Inr None, snd s))"

subsection \<open>\<^verbatim>\<open>clear_queue_except_now_playing\<close>\<close>

text \<open>
  What Python does with a payload where the source expects a list of queued items or the
  now-playing dictionary: \<^verbatim>\<open>len(queued_entries)\<close>, \<^verbatim>\<open>now_playing["qid"]\<close>, and the
  joined string of lines 231 to 236. A dictionary has a length (its two keys), and walking
  it yields its keys, which are strings and cannot be indexed by \<^verbatim>\<open>"qid"\<close>.
\<close>

fun py_len :: "payload \<Rightarrow> exn + nat" where
  "py_len PNone = Inl (TypeError ''object of type 'NoneType' has no len()'')"
| "py_len (PQueue xs) = Inr (length xs)"
| "py_len (PNowPlaying d) = Inr 2"

fun getitem_qid :: "payload \<Rightarrow> exn + int" where
  "getitem_qid PNone = Inl (TypeError '''NoneType' object is not subscriptable'')"
| "getitem_qid (PQueue xs) = Inl (TypeError ''list indices must be integers or slices, not str'')"
| "getitem_qid (PNowPlaying d) = Inr (np_qid d)"

fun join_qids :: "payload \<Rightarrow> int \<Rightarrow> exn + string" where
  "join_qids PNone playing_qid = Inl (TypeError '''NoneType' object is not iterable'')"
| "join_qids (PQueue xs) playing_qid =
     Inr (join '','' (map (\<lambda>i. str_int (item_qid i)) (filter (\<lambda>i. item_qid i \<noteq> playing_qid) xs)))"
| "join_qids (PNowPlaying d) playing_qid = Inl (TypeError ''string indices must be integers'')"

text \<open>Lines 252 to 286: the now-playing item is fetched again and compared with 1.\<close>

definition verify_now_playing ::
  "'w channel \<Rightarrow> string \<Rightarrow> int \<Rightarrow> conn \<Rightarrow> 'w env \<Rightarrow> (exn + unit) \<times> 'w env" where
  "verify_now_playing chan entity_id pid connection e =
     (case command chan connection ''player/get_now_playing_media'' [(''pid'', VInt pid)] e of
        (Inl x, e1) \<Rightarrow>
          (case x of
             HeosError m \<Rightarrow>
               (Inr (),
                logger EXCEPTION
                  ''%s: error with player/get_now_playing_media for player %s after queue maintenance''
                  [AStr ''clear_queue_except_now_playing'', AStr entity_id] e1)
           | _ \<Rightarrow> (Inl x, e1))
      | (Inr response, e1) \<Rightarrow>
          if \<not> result response then
            (Inr (),
             logger WARNING ''%s: unable to get now playing after queue maintenance for player %s''
               [AStr ''clear_queue_except_now_playing'', AStr entity_id] e1)
          else
            (case getitem_qid (payload response) of
               Inl x \<Rightarrow> (Inl x, e1)
             | Inr playing_qid \<Rightarrow>
                 (let e2 = logger DEBUG ''%s: now playing qid %d for player %s after queue maintenance''
                             [AStr ''clear_queue_except_now_playing'', AInt playing_qid, AStr entity_id] e1
                  in if playing_qid \<noteq> 1 then
                       (Inr (),
                        logger ERROR ''%s: playing qid is not '1' after queue maintenance for player %s''
                          [AStr ''clear_queue_except_now_playing'', AStr entity_id] e2)
                     else (Inr (), e2))))"

text \<open>
  Lines 228 to 250, then the verification: the batched removal. A \<open>HeosError\<close> of the
  removal is passed over (\<^verbatim>\<open>except HeosError: pass\<close>).
\<close>

definition remove_others ::
  "'w channel \<Rightarrow> string \<Rightarrow> int \<Rightarrow> conn \<Rightarrow> payload \<Rightarrow> int \<Rightarrow> 'w env \<Rightarrow> (exn + unit) \<times> 'w env" where
  "remove_others chan entity_id pid connection queued_entries playing_qid e =
     (case join_qids queued_entries playing_qid of
        Inl x \<Rightarrow> (Inl x, e)
      | Inr qids_to_remove \<Rightarrow>
          (case command chan connection ''player/remove_from_queue''
                  [(''pid'', VInt pid), (''qid'', VStr qids_to_remove)]
                  (logger DEBUG ''%s: removing queue items %s from player %s''
                     [AStr ''clear_queue_except_now_playing'', AStr qids_to_remove, AStr entity_id] e) of
             (Inl x, e1) \<Rightarrow>
               (case x of
                  HeosError m \<Rightarrow> verify_now_playing chan entity_id pid connection e1
                | _ \<Rightarrow> (Inl x, e1))
           | (Inr r, e1) \<Rightarrow> verify_now_playing chan entity_id pid connection e1))"

text \<open>Lines 198 to 226, then the removal: the now-playing item is fetched.\<close>

definition fetch_now_playing ::
  "'w channel \<Rightarrow> string \<Rightarrow> int \<Rightarrow> conn \<Rightarrow> payload \<Rightarrow> 'w env \<Rightarrow> (exn + unit) \<times> 'w env" where
  "fetch_now_playing chan entity_id pid connection queued_entries e =
     (case command chan connection ''player/get_now_playing_media'' [(''pid'', VInt pid)] e of
        (Inl x, e1) \<Rightarrow>
          (case x of
             HeosError m \<Rightarrow>
               (Inr (),
                logger EXCEPTION ''%s: error with player/get_now_playing_media for player %s''
                  [AStr ''clear_queue_except_now_playing'', AStr entity_id] e1)
           | _ \<Rightarrow> (Inl x, e1))
      | (Inr response, e1) \<Rightarrow>
          if \<not> result response then
            (Inr (),
             logger WARNING ''%s: player/get_now_playing_media failed for player %s''
               [AStr ''clear_queue_except_now_playing'', AStr entity_id] e1)
          else
            (case getitem_qid (payload response) of
               Inl x \<Rightarrow> (Inl x, e1)
             | Inr playing_qid \<Rightarrow>
                 remove_others chan entity_id pid connection queued_entries playing_qid
                   (logger DEBUG ''%s: now playing queue id %d for player %s''
                      [AStr ''clear_queue_except_now_playing'', AInt playing_qid, AStr entity_id] e1)))"

text \<open>
  \<^verbatim>\<open>ClearQueueExceptNowPlaying.handler\<close>, from its first line: lines 170 to 196 are
  here, the rest of the body is the three functions above, in the order of the source.
\<close>

definition clear_queue_except_now_playing_handler :: "'w channel \<Rightarrow> ('v, 'w) connection_callback" where
  "clear_queue_except_now_playing_handler chan entity_id pid connection s =
     (case command chan connection ''player/get_queue'' [(''pid'', VInt pid)] (snd s) of
        (Inl x, e1) \<Rightarrow>
          (case x of
             HeosError m \<Rightarrow>
               (Inr (), (fst s,
                  logger EXCEPTION ''%s: error with player/get_queue for %s''
                    [AStr ''clear_queue_except_now_playing'', AStr entity_id] e1))
           | _ \<Rightarrow> (Inl x, (fst s, e1)))
      | (Inr response, e1) \<Rightarrow>
          if \<not> result response then
            (Inr (), (fst s,
               logger WARNING ''%s: player/get_queue failed for player %s''
                 [AStr ''clear_queue_except_now_playing'', AStr entity_id] e1))
          else
            (case py_len (payload response) of
               Inl x \<Rightarrow> (Inl x, (fst s, e1))
             | Inr n \<Rightarrow>
                 if n \<le> 1 then
                   (Inr (), (fst s,
                      logger DEBUG ''%s: queue is sized correctly for player %s''
                        [AStr ''clear_queue_except_now_playing'', AStr entity_id] e1))
                 else
                   (case fetch_now_playing chan entity_id pid connection (payload response) e1 of
                      (r, e2) \<Rightarrow> (r, (fst s, e2)))))"

definition clear_queue_except_now_playing_callback ::
  "hass \<Rightarrow> 'w channel \<Rightarrow> service_call \<Rightarrow> 'w env \<Rightarrow> (exn + service_response option) \<times> 'w env" where
  "clear_queue_except_now_playing_callback hass chan call e0 =
     (case async_exec_command hass call (clear_queue_except_now_playing_handler chan)
             ((), logger DEBUG ''%s service call: %s''
                    [AStr ''clear_queue_except_now_playing'', AObj] e0) of
        (Inl x, s) \<Rightarrow> (Inl x, snd s)
      | (Inr u, s) \<Rightarrow> (Inr None, snd s))"

subsection \<open>\<^verbatim>\<open>get_queue\<close>\<close>

text \<open>
  The handler closes over the dictionary \<open>queues\<close> and the list \<open>errors\<close> of the
  callback. A Python dictionary keeps its keys in the order of their first assignment and
  overwrites in place, which is \<open>AList.update\<close>.
\<close>

definition get_queue_handler ::
  "'w channel \<Rightarrow> ((string \<times> payload) list \<times> string list, 'w) connection_callback" where
  "get_queue_handler chan entity_id pid connection s =
     (case command chan connection ''player/get_queue'' [(''pid'', VInt pid)] (snd s) of
        (Inr items, e1) \<Rightarrow>
          if result items then
            (Inr (), ((AList.update entity_id (payload items) (fst (fst s)), snd (fst s)), e1))
          else (Inr (), (fst s, e1))
      | (Inl x, e1) \<Rightarrow>
          (case x of
             HeosError m \<Rightarrow>
               (Inr (), ((fst (fst s), snd (fst s) @ [entity_id]),
                  logger EXCEPTION ''%s: error getting queue from %s''
                    [AStr ''get_queue'', AStr entity_id] e1))
           | _ \<Rightarrow> (Inl x, (fst s, e1))))"

definition get_queue_callback ::
  "hass \<Rightarrow> 'w channel \<Rightarrow> service_call \<Rightarrow> 'w env \<Rightarrow> (exn + service_response option) \<times> 'w env" where
  "get_queue_callback hass chan call e0 =
     (case async_exec_command hass call (get_queue_handler chan)
             (([], []), logger DEBUG ''%s service call: %s'' [AStr ''get_queue'', AObj] e0) of
        (Inl x, s) \<Rightarrow> (Inl x, snd s)
      | (Inr u, s) \<Rightarrow>
          (Inr (Some (GetQueueResponse (length (fst (fst s))) (fst (fst s)) (snd (fst s)))), snd s))"

subsection \<open>\<^verbatim>\<open>remove_from_queue\<close>\<close>

definition remove_from_queue_handler ::
  "'w channel \<Rightarrow> int \<Rightarrow> (string list, 'w) connection_callback" where
  "remove_from_queue_handler chan qid entity_id pid connection s =
     (case command chan connection ''player/remove_from_queue''
             [(''pid'', VInt pid), (''qid'', VInt qid)] (snd s) of
        (Inr r, e1) \<Rightarrow> (Inr (), (fst s, e1))
      | (Inl x, e1) \<Rightarrow>
          (case x of
             HeosError m \<Rightarrow>
               (Inr (), (fst s @ [entity_id],
                  logger EXCEPTION ''%s: error removing %d from queue for player %s''
                    [AStr ''remove_from_queue'', AInt qid, AStr entity_id] e1))
           | _ \<Rightarrow> (Inl x, (fst s, e1))))"

definition remove_from_queue_callback ::
  "hass \<Rightarrow> 'w channel \<Rightarrow> service_call \<Rightarrow> 'w env \<Rightarrow> (exn + service_response option) \<times> 'w env" where
  "remove_from_queue_callback hass chan call e0 =
     (let e1 = logger DEBUG ''%s service call: %s'' [AStr ''remove_from_queue'', AObj] e0
      in case map_of (data call) ''queue_id'' of
           None \<Rightarrow>
             (Inr None,
              logger ERROR ''%s: missing queue_id in service data'' [AStr ''remove_from_queue''] e1)
         | Some qid \<Rightarrow>
             (case async_exec_command hass call (remove_from_queue_handler chan qid) ([], e1) of
                (Inl x, s) \<Rightarrow> (Inl x, snd s)
              | (Inr u, s) \<Rightarrow>
                  if return_response call then (Inr (Some (RemoveFromQueueResponse (fst s))), snd s)
                  else (Inr None, snd s)))"

section \<open>Observing a service call\<close>

text \<open>
  The resolved targets of a service call are the \<^verbatim>\<open>HeosMediaPlayer\<close> entities of the set:
  the ones the loop does not skip. A target is handed to the callback as its entity id, its
  player id and its connection.
\<close>

definition targets :: "hass \<Rightarrow> service_call \<Rightarrow> entity list" where
  "targets hass call = filter is_heos (entities hass call)"

definition target_of :: "entity \<Rightarrow> string \<times> int \<times> conn" where
  "target_of e = (entity_id_of e, player_id_of e, connection_of e)"

text \<open>
  To see which invocations the dispatch makes, a callback is wrapped so that every
  invocation first notes its arguments in a list, then runs the callback.
\<close>

definition recording ::
  "('v, 'w) connection_callback \<Rightarrow> ((string \<times> int \<times> conn) list \<times> 'v, 'w) connection_callback" where
  "recording cb eid pid c s =
     (case cb eid pid c (snd (fst s), snd s) of
        (r, s') \<Rightarrow> (r, ((fst (fst s) @ [(eid, pid, c)], fst s'), snd s')))"

definition invocations ::
  "hass \<Rightarrow> service_call \<Rightarrow> ('v, 'w) connection_callback \<Rightarrow> 'v \<times> 'w env
     \<Rightarrow> (string \<times> int \<times> conn) list" where
  "invocations hass call cb s =
     fst (fst (snd (async_exec_command hass call (recording cb) (([], fst s), snd s))))"

text \<open>A channel that raises nothing but \<open>HeosError\<close>.\<close>

definition heos_only :: "'w channel \<Rightarrow> bool" where
  "heos_only chan = (\<forall>c name ps w x. fst (chan c name ps w) = Inl x \<longrightarrow> is_HeosError x)"

subsection \<open>The outcome of a device under \<^verbatim>\<open>get_queue\<close>\<close>

text \<open>
  What the channel answers to \<^verbatim>\<open>player/get_queue\<close> for each player in turn, the remote
  side moving on with every command: the queue of the player, an answer whose result flag
  is unset, or an exception.
\<close>

datatype outcome = Fetched payload | Unsuccessful | Raised

fun get_queue_outcomes :: "'w channel \<Rightarrow> entity list \<Rightarrow> 'w \<Rightarrow> (string \<times> outcome) list" where
  "get_queue_outcomes chan [] w = []"
| "get_queue_outcomes chan (OtherEntity eid # es) w = get_queue_outcomes chan es w"
| "get_queue_outcomes chan (HeosMediaPlayer eid pid c # es) w =
     (case chan c ''player/get_queue'' [(''pid'', VInt pid)] w of
        (Inl x, w') \<Rightarrow> (eid, Raised) # get_queue_outcomes chan es w'
      | (Inr r, w') \<Rightarrow>
          (eid, if result r then Fetched (payload r) else Unsuccessful)
            # get_queue_outcomes chan es w')"

fun fetched :: "(string \<times> outcome) list \<Rightarrow> (string \<times> payload) list" where
  "fetched [] = []"
| "fetched ((k, Fetched p) # os) = (k, p) # fetched os"
| "fetched ((k, oc) # os) = fetched os"

definition with_outcome :: "outcome \<Rightarrow> (string \<times> outcome) list \<Rightarrow> string list" where
  "with_outcome oc os = map fst (filter (\<lambda>p. snd p = oc) os)"

text \<open>
  A channel whose successful answers carry the payload the source casts them to: a list of
  queued items for \<^verbatim>\<open>player/get_queue\<close>, the now-playing dictionary for
  \<^verbatim>\<open>player/get_now_playing_media\<close>.
\<close>

definition well_shaped :: "'w channel \<Rightarrow> bool" where
  "well_shaped chan \<longleftrightarrow>
     (\<forall>c ps w r. fst (chan c ''player/get_queue'' ps w) = Inr r \<and> result r
         \<longrightarrow> (\<exists>xs. payload r = PQueue xs)) \<and>
     (\<forall>c ps w r. fst (chan c ''player/get_now_playing_media'' ps w) = Inr r \<and> result r
         \<longrightarrow> (\<exists>d. payload r = PNowPlaying d))"

text \<open>
  The host whose single HEOS platform yields, for a call, every entity that the platforms
  of \<open>hass\<close> yield for it, once.
\<close>

definition deduplicated :: "hass \<Rightarrow> hass" where
  "deduplicated hass = [(''heos'', \<lambda>call. entities hass call)]"

subsection \<open>Reading a comma-joined list of queue ids\<close>

text \<open>
  The remote protocol takes the parameter \<^verbatim>\<open>qid\<close> of \<^verbatim>\<open>player/remove_from_queue\<close> as
  decimal queue ids separated by commas. \<open>qids_of\<close> reads such a string back into the
  ids it names; \<open>split_on\<close> is Python's \<^verbatim>\<open>str.split\<close> at one character.
\<close>

fun split_on :: "char \<Rightarrow> string \<Rightarrow> string list" where
  "split_on sep [] = [[]]"
| "split_on sep (x # xs) =
     (if x = sep then [] # split_on sep xs
      else (case split_on sep xs of [] \<Rightarrow> [[x]] | y # ys \<Rightarrow> (x # y) # ys))"

definition digit_val :: "char \<Rightarrow> nat" where
  "digit_val ch = of_char ch - 48"

definition nat_of_str :: "string \<Rightarrow> nat" where
  "nat_of_str s = foldl (\<lambda>n ch. 10 * n + digit_val ch) 0 s"

definition int_of_str :: "string \<Rightarrow> int" where
  "int_of_str s =
     (if s \<noteq> [] \<and> hd s = CHR ''-'' then - int (nat_of_str (tl s)) else int (nat_of_str s))"

definition qids_of :: "string \<Rightarrow> int list" where
  "qids_of s = (if s = [] then [] else map int_of_str (split_on CHR '','' s))"


subsection \<open>The outcome of a device under \<^verbatim>\<open>remove_from_queue\<close>\<close>

text \<open>
  What the channel answers to \<^verbatim>\<open>player/remove_from_queue\<close> for each player in turn, the
  remote side moving on with every command: a successful answer, an answer whose result
  flag is unset, or an exception. The last two are the failures of a remote call.
\<close>

datatype removal = Removed | RemoveUnsuccessful | RemoveRaised

fun remove_outcomes :: "'w channel \<Rightarrow> int \<Rightarrow> entity list \<Rightarrow> 'w \<Rightarrow> (string \<times> removal) list" where
  "remove_outcomes chan qid [] w = []"
| "remove_outcomes chan qid (OtherEntity eid # es) w = remove_outcomes chan qid es w"
| "remove_outcomes chan qid (HeosMediaPlayer eid pid c # es) w =
     (case chan c ''player/remove_from_queue'' [(''pid'', VInt pid), (''qid'', VInt qid)] w of
        (Inl x, w') \<Rightarrow> (eid, RemoveRaised) # remove_outcomes chan qid es w'
      | (Inr r, w') \<Rightarrow>
          (eid, if result r then Removed else RemoveUnsuccessful) # remove_outcomes chan qid es w')"

definition with_removal :: "removal \<Rightarrow> (string \<times> removal) list \<Rightarrow> string list" where
  "with_removal oc os = map fst (filter (\<lambda>p. snd p = oc) os)"

subsection \<open>Concrete inputs\<close>

definition env0 :: "unit env" where
  "env0 = \<lparr>world = (), sent = [], logged = []\<rparr>"

definition player_a :: entity where
  "player_a = HeosMediaPlayer ''media_player.a'' 1 0"

definition player_b :: entity where
  "player_b = HeosMediaPlayer ''media_player.b'' 2 0"

definition player_c :: entity where
  "player_c = HeosMediaPlayer ''media_player.c'' 3 0"

text \<open>A host with one HEOS platform that yields two players, whatever the call selects.\<close>

definition hass_ab :: hass where
  "hass_ab = [(''heos'', \<lambda>call. [player_a, player_b])]"

definition call_plain :: service_call where
  "call_plain = \<lparr>target = [''media_player.a'', ''media_player.b''], data = [], return_response = True\<rparr>"

text \<open>A channel on which every command succeeds with an empty payload.\<close>

definition chan_ok :: "unit channel" where
  "chan_ok c name ps w = (Inr \<lparr>result = True, payload = PNone\<rparr>, w)"

text \<open>A host whose HEOS platform yields three players.\<close>

definition hass_abc :: hass where
  "hass_abc = [(''heos'', \<lambda>call. [player_a, player_b, player_c])]"

definition queue_12 :: payload where
  "queue_12 = PQueue [QueuedItemDict 1 [], QueuedItemDict 2 []]"

text \<open>
  A channel on which the player with id 1 answers with an unset result flag and every
  other player with a queue of two items.
\<close>

definition chan_flag :: "unit channel" where
  "chan_flag c name ps w =
     (if ps = [(''pid'', VInt 1)] then (Inr \<lparr>result = False, payload = PNone\<rparr>, w)
      else (Inr \<lparr>result = True, payload = queue_12\<rparr>, w))"

text \<open>
  A channel on which the player with id 1 raises \<open>HeosError\<close>, the player with id 2
  answers with an unset result flag, and every other player with a queue of two items.
\<close>

definition chan_mixed :: "unit channel" where
  "chan_mixed c name ps w =
     (if ps = [(''pid'', VInt 1)] then (Inl (HeosError ''timeout''), w)
      else if ps = [(''pid'', VInt 2)] then (Inr \<lparr>result = False, payload = PNone\<rparr>, w)
      else (Inr \<lparr>result = True, payload = queue_12\<rparr>, w))"

text \<open>A callback that raises for every device.\<close>

definition raising :: "(unit, unit) connection_callback" where
  "raising entity_id pid connection s = (Inl (OtherException ''boom''), s)"

text \<open>A channel on which every command raises an exception that is no \<open>HeosError\<close>.\<close>

definition chan_cancelled :: "unit channel" where
  "chan_cancelled c name ps w = (Inl (OtherException ''CancelledError''), w)"

text \<open>
  A host with two HEOS platforms and a platform of another integration; the HEOS platforms
  yield the same two players several times.
\<close>

definition hass_twice :: hass where
  "hass_twice = [(''heos'', \<lambda>call. [player_a, player_b, player_a]), (''zone'', \<lambda>call. [player_c]),
                 (''heos'', \<lambda>call. [player_b])]"

definition queue_123 :: payload where
  "queue_123 = PQueue [QueuedItemDict 1 [], QueuedItemDict 2 [], QueuedItemDict 3 []]"

text \<open>
  A player with three queued items that plays the second one. The state of the remote side
  says whether a removal has happened; after it, the item that plays has the queue id 1.
\<close>

definition chan_player :: "bool channel" where
  "chan_player c name ps w =
     (if name = ''player/get_queue'' then (Inr \<lparr>result = True, payload = queue_123\<rparr>, w)
      else if name = ''player/get_now_playing_media'' then
        (Inr \<lparr>result = True, payload = PNowPlaying (NowPlayingDict Song (if w then 1 else 2))\<rparr>, w)
      else if name = ''player/remove_from_queue'' then (Inr \<lparr>result = True, payload = PNone\<rparr>, True)
      else (Inr \<lparr>result = True, payload = PNone\<rparr>, w))"

text \<open>The same, but the player with id 1 raises \<open>HeosError\<close> on every command.\<close>

definition chan_a_down :: "bool channel" where
  "chan_a_down c name ps w =
     (if map_of ps ''pid'' = Some (VInt 1) then (Inl (HeosError ''unreachable''), w)
      else chan_player c name ps w)"

definition env1 :: "bool env" where
  "env1 = \<lparr>world = False, sent = [], logged = []\<rparr>"

text \<open>A channel on which the queue of every player holds one item; no other command is expected.\<close>

definition chan_single :: "unit channel" where
  "chan_single c name ps w =
     (if name = ''player/get_queue'' then
        (Inr \<lparr>result = True, payload = PQueue [QueuedItemDict 7 []]\<rparr>, w)
      else (Inl (OtherException ''not expected''), w))"

text \<open>
  The player of \<open>chan_player\<close>, but the removal raises \<open>HeosError\<close>, although the remote
  side has renumbered its queue.
\<close>

definition chan_remove_raises :: "bool channel" where
  "chan_remove_raises c name ps w =
     (if name = ''player/remove_from_queue'' then (Inl (HeosError ''command failed''), True)
      else chan_player c name ps w)"

text \<open>A call of \<^verbatim>\<open>remove_from_queue\<close> for the queue id 2 that asks for a response.\<close>

definition call_remove :: service_call where
  "call_remove = \<lparr>target = [''media_player.a'', ''media_player.b''], data = [(''queue_id'', 2)],
                   return_response = True\<rparr>"

text \<open>
  A channel on which the player with id 1 raises \<open>HeosError\<close>, the player with id 2
  answers with an unset result flag, and every other player answers with success, whatever
  the command.
\<close>

definition chan_remove_mixed :: "unit channel" where
  "chan_remove_mixed c name ps w =
     (if map_of ps ''pid'' = Some (VInt 1) then (Inl (HeosError ''timeout''), w)
      else if map_of ps ''pid'' = Some (VInt 2) then (Inr \<lparr>result = False, payload = PNone\<rparr>, w)
      else (Inr \<lparr>result = True, payload = PNone\<rparr>, w))"

section \<open>Lemmas\<close>

lemma world_logger [simp]: "world (logger l f as e) = world e"
  by (simp add: logger_def)

lemma sent_logger [simp]: "sent (logger l f as e) = sent e"
  by (simp add: logger_def)

lemma logged_logger [simp]: "logged (logger l f as e) = logged e @ [LogEntry l f as]"
  by (simp add: logger_def)

lemma for_entities_recording_result:
  "fst (for_entities (recording cb) es ((tr, v), e)) = fst (for_entities cb es (v, e))"
proof (induction es arbitrary: tr v e)
  case Nil then show ?case by simp
next
  case (Cons a es)
  show ?case
  proof (cases a)
    case (OtherEntity eid)
    then show ?thesis using Cons.IH by simp
  next
    case (HeosMediaPlayer eid pid c)
    obtain r v' e' where cb: "cb eid pid c (v, e) = (r, (v', e'))" by (metis prod_cases3)
    show ?thesis using HeosMediaPlayer cb Cons.IH
      by (cases r) (simp_all add: recording_def)
  qed
qed

lemma for_entities_recording_total:
  assumes "\<And>eid pid c s. fst (cb eid pid c s) = Inr ()"
  shows "fst (for_entities (recording cb) es ((tr, v), e)) = Inr () \<and>
         fst (fst (snd (for_entities (recording cb) es ((tr, v), e)))) =
           tr @ map target_of (filter is_heos es)"
proof (induction es arbitrary: tr v e)
  case Nil then show ?case by simp
next
  case (Cons a es)
  show ?case
  proof (cases a)
    case (OtherEntity eid)
    then show ?thesis using Cons.IH by simp
  next
    case (HeosMediaPlayer eid pid c)
    obtain r v' e' where cb: "cb eid pid c (v, e) = (r, (v', e'))" by (metis prod_cases3)
    with assms[of eid pid c "(v, e)"] have r: "r = Inr ()" by simp
    show ?thesis using HeosMediaPlayer cb r Cons.IH[of "tr @ [(eid, pid, c)]" v' e']
      by (simp add: recording_def target_of_def)
  qed
qed

lemma for_entities_recording_prefix:
  "\<exists>k. fst (fst (snd (for_entities (recording cb) es ((tr, v), e)))) =
         tr @ take k (map target_of (filter is_heos es))"
proof (induction es arbitrary: tr v e)
  case Nil then show ?case by simp
next
  case (Cons a es)
  show ?case
  proof (cases a)
    case (OtherEntity eid)
    then show ?thesis using Cons.IH by simp
  next
    case (HeosMediaPlayer eid pid c)
    obtain r v' e' where cb: "cb eid pid c (v, e) = (r, (v', e'))" by (metis prod_cases3)
    show ?thesis
    proof (cases r)
      case (Inl x)
      then have "fst (fst (snd (for_entities (recording cb) (a # es) ((tr, v), e)))) =
          tr @ take 1 (map target_of (filter is_heos (a # es)))"
        using HeosMediaPlayer cb by (simp add: recording_def target_of_def)
      then show ?thesis by blast
    next
      case (Inr u)
      from Cons.IH[of "tr @ [(eid, pid, c)]" v' e'] obtain k where
        "fst (fst (snd (for_entities (recording cb) es ((tr @ [(eid, pid, c)], v'), e')))) =
           (tr @ [(eid, pid, c)]) @ take k (map target_of (filter is_heos es))" by blast
      then have "fst (fst (snd (for_entities (recording cb) (a # es) ((tr, v), e)))) =
          tr @ take (Suc k) (map target_of (filter is_heos (a # es)))"
        using HeosMediaPlayer cb Inr by (simp add: recording_def target_of_def)
      then show ?thesis by blast
    qed
  qed
qed

lemma distinct_targets_map:
  "distinct es \<Longrightarrow> distinct (map target_of (filter is_heos es))"
  by (auto simp: distinct_map inj_on_def target_of_def is_heos_def)

lemma distinct_entities: "distinct (entities hass call)"
  by (simp add: entities_def)

lemma heos_onlyD: "heos_only chan \<Longrightarrow> chan c name ps w = (Inl x, w') \<Longrightarrow> \<exists>m. x = HeosError m"
  unfolding heos_only_def by (metis exn.collapse(1) fst_conv)

lemma update_fresh: "k \<notin> fst ` set al \<Longrightarrow> AList.update k v al = al @ [(k, v)]"
  by (induction al) auto

lemma get_queue_loop:
  assumes "heos_only chan"
  shows "distinct (map entity_id_of (filter is_heos es)) \<Longrightarrow>
         entity_id_of ` set (filter is_heos es) \<inter> fst ` set Q = {} \<Longrightarrow>
         fst (for_entities (get_queue_handler chan) es ((Q, E), e)) = Inr () \<and>
         fst (snd (for_entities (get_queue_handler chan) es ((Q, E), e))) =
           (Q @ fetched (get_queue_outcomes chan es (world e)),
            E @ with_outcome Raised (get_queue_outcomes chan es (world e)))"
proof (induction es arbitrary: Q E e)
  case Nil then show ?case by (simp add: with_outcome_def)
next
  case (Cons a es)
  show ?case
  proof (cases a)
    case (OtherEntity eid)
    then show ?thesis using Cons by simp
  next
    case (HeosMediaPlayer eid pid c)
    obtain r w' where ch: "chan c ''player/get_queue'' [(''pid'', VInt pid)] (world e) = (r, w')"
      by (metis surj_pair)
    have cmd: "command chan c ''player/get_queue'' [(''pid'', VInt pid)] e = (r, e\<lparr>world := w', sent := sent e @ [(c, ''player/get_queue'', [(''pid'', VInt pid)])]\<rparr>)" using ch by (simp add: command_def)
    have dist: "distinct (map entity_id_of (filter is_heos es))"
      and fresh: "eid \<notin> entity_id_of ` set (filter is_heos es)" "eid \<notin> fst ` set Q"
      and disj: "entity_id_of ` set (filter is_heos es) \<inter> fst ` set Q = {}"
      using Cons.prems HeosMediaPlayer by auto
    show ?thesis
    proof (cases r)
      case (Inl x)
      then obtain m where x: "x = HeosError m" using heos_onlyD[OF assms] ch by blast
      show ?thesis
        using HeosMediaPlayer Inl x ch cmd Cons.IH[OF dist disj, of "E @ [eid]"]
        by (simp add: get_queue_handler_def with_outcome_def)
    next
      case (Inr resp)
      show ?thesis
      proof (cases "result resp")
        case True
        have disj': "entity_id_of ` set (filter is_heos es) \<inter> fst ` set (Q @ [(eid, payload resp)]) = {}"
          using disj fresh by auto
        show ?thesis
          using HeosMediaPlayer Inr True ch cmd fresh Cons.IH[OF dist disj', of E]
          by (simp add: get_queue_handler_def with_outcome_def update_fresh)
      next
        case False
        show ?thesis
          using HeosMediaPlayer Inr False ch cmd Cons.IH[OF dist disj, of E]
          by (simp add: get_queue_handler_def with_outcome_def)
      qed
    qed
  qed
qed

lemma outcomes_filter:
  "get_queue_outcomes chan (filter is_heos es) w = get_queue_outcomes chan es w"
  by (induction chan es w rule: get_queue_outcomes.induct) (auto split: prod.splits sum.splits)

lemma outcomes_ids:
  "map fst (get_queue_outcomes chan es w) = map entity_id_of (filter is_heos es)"
  by (induction chan es w rule: get_queue_outcomes.induct) (auto split: prod.splits sum.splits)

lemma outcome_lengths:
  "length (fetched os) + length (with_outcome Raised os) + length (with_outcome Unsuccessful os)
     = length os"
  by (induction os rule: fetched.induct) (auto simp: with_outcome_def)

lemma fetched_keys: "map fst (fetched os) = map fst (filter (\<lambda>p. \<exists>q. snd p = Fetched q) os)"
  by (induction os rule: fetched.induct) auto

lemma distinct_fetched: "distinct (map fst os) \<Longrightarrow> distinct (map fst (fetched os))"
  by (simp add: fetched_keys distinct_map_filter)

lemma in_fetched: "(k, p) \<in> set (fetched os) \<longleftrightarrow> (k, Fetched p) \<in> set os"
  by (induction os rule: fetched.induct) auto

lemma in_with_outcome: "k \<in> set (with_outcome oc os) \<longleftrightarrow> (k, oc) \<in> set os"
  by (auto simp: with_outcome_def intro: rev_image_eqI)

lemma fetched_disjoint:
  assumes "distinct (map fst os)" and "\<And>p. oc \<noteq> Fetched p"
  shows "fst ` set (fetched os) \<inter> set (with_outcome oc os) = {}"
proof -
  have False if "(k, p) \<in> set (fetched os)" and "k \<in> set (with_outcome oc os)" for k p
  proof -
    have "(k, Fetched p) \<in> set os" and "(k, oc) \<in> set os"
      using that by (simp_all add: in_fetched in_with_outcome)
    then have "Fetched p = oc" using assms(1) by (rule eq_key_imp_eq_value[rotated])
    then show False using assms(2) by blast
  qed
  then show ?thesis by fastforce
qed

lemma with_outcome_disjoint:
  assumes "distinct (map fst os)" and "oc \<noteq> oc'"
  shows "set (with_outcome oc os) \<inter> set (with_outcome oc' os) = {}"
proof -
  have False if "k \<in> set (with_outcome oc os)" and "k \<in> set (with_outcome oc' os)" for k
  proof -
    have "(k, oc) \<in> set os" and "(k, oc') \<in> set os"
      using that by (simp_all add: in_with_outcome)
    then have "oc = oc'" using assms(1) by (rule eq_key_imp_eq_value[rotated])
    then show False using assms(2) by blast
  qed
  then show ?thesis by blast
qed

lemma get_queue_callback_eq:
  assumes "heos_only chan" and "distinct (map entity_id_of (targets hass call))"
  shows "fst (get_queue_callback hass chan call e) =
           Inr (Some (GetQueueResponse
             (length (fetched (get_queue_outcomes chan (targets hass call) (world e))))
             (fetched (get_queue_outcomes chan (targets hass call) (world e)))
             (with_outcome Raised (get_queue_outcomes chan (targets hass call) (world e)))))"
proof -
  let ?e1 = "logger DEBUG ''operating on entities: %s'' [AObj]
               (logger DEBUG ''%s service call: %s'' [AStr ''get_queue'', AObj] e)"
  have d: "distinct (map entity_id_of (filter is_heos (entities hass call)))"
    using assms(2) by (simp add: targets_def)
  have l: "fst (for_entities (get_queue_handler chan) (entities hass call) (([], []), ?e1)) = Inr () \<and>
         fst (snd (for_entities (get_queue_handler chan) (entities hass call) (([], []), ?e1))) =
           ([] @ fetched (get_queue_outcomes chan (entities hass call) (world ?e1)),
            [] @ with_outcome Raised (get_queue_outcomes chan (entities hass call) (world ?e1)))"
    by (rule get_queue_loop[OF assms(1) d]) simp
  show ?thesis
    using l by (auto simp: get_queue_callback_def async_exec_command_def targets_def outcomes_filter
        split: prod.splits sum.splits)
qed


lemma entities_ab: "entities hass_ab call = [player_a, player_b]"
  by (simp add: entities_def hass_ab_def async_get_platforms_def player_a_def player_b_def)

lemma entities_abc: "entities hass_abc call = [player_a, player_b, player_c]"
  by (simp add: entities_def hass_abc_def async_get_platforms_def player_a_def player_b_def
      player_c_def)

lemma targets_ab: "targets hass_ab call = [player_a, player_b]"
  by (simp add: targets_def entities_ab) (simp add: player_a_def player_b_def)

lemma targets_abc: "targets hass_abc call = [player_a, player_b, player_c]"
  by (simp add: targets_def entities_abc) (simp add: player_a_def player_b_def player_c_def)

lemma command_cases:
  obtains x w' where "command chan c name ps e = (Inl x, e\<lparr>world := w', sent := sent e @ [(c, name, ps)]\<rparr>)"
      "chan c name ps (world e) = (Inl x, w')"
  | r w' where "command chan c name ps e = (Inr r, e\<lparr>world := w', sent := sent e @ [(c, name, ps)]\<rparr>)"
      "chan c name ps (world e) = (Inr r, w')"
proof -
  obtain y w' where ch: "chan c name ps (world e) = (y, w')" by (metis surj_pair)
  then have "command chan c name ps e = (y, e\<lparr>world := w', sent := sent e @ [(c, name, ps)]\<rparr>)"
    by (simp add: command_def)
  with ch show ?thesis using that by (cases y) auto
qed

lemma clear_queue_handler_total:
  assumes "heos_only chan"
  shows "fst (clear_queue_handler chan eid pid c s) = Inr ()"
proof (cases rule: command_cases[of chan c "''player/clear_queue''" "[(''pid'', VInt pid)]" "snd s"])
  case (1 x w')
  then obtain m where "x = HeosError m" using heos_onlyD[OF assms] by blast
  with 1 show ?thesis by (simp add: clear_queue_handler_def)
next
  case (2 r w')
  then show ?thesis by (simp add: clear_queue_handler_def)
qed

lemma get_queue_handler_total:
  assumes "heos_only chan"
  shows "fst (get_queue_handler chan eid pid c s) = Inr ()"
proof (cases rule: command_cases[of chan c "''player/get_queue''" "[(''pid'', VInt pid)]" "snd s"])
  case (1 x w')
  then obtain m where "x = HeosError m" using heos_onlyD[OF assms] by blast
  with 1 show ?thesis by (simp add: get_queue_handler_def)
next
  case (2 r w')
  then show ?thesis by (simp add: get_queue_handler_def)
qed

lemma remove_from_queue_handler_total:
  assumes "heos_only chan"
  shows "fst (remove_from_queue_handler chan q eid pid c s) = Inr ()"
proof (cases rule: command_cases[of chan c "''player/remove_from_queue''"
      "[(''pid'', VInt pid), (''qid'', VInt q)]" "snd s"])
  case (1 x w')
  then obtain m where "x = HeosError m" using heos_onlyD[OF assms] by blast
  with 1 show ?thesis by (simp add: remove_from_queue_handler_def)
next
  case (2 r w')
  then show ?thesis by (simp add: remove_from_queue_handler_def)
qed

lemma well_shaped_now_playing:
  "well_shaped chan \<Longrightarrow> chan c ''player/get_now_playing_media'' ps w = (Inr r, w') \<Longrightarrow> result r \<Longrightarrow>
   \<exists>d. payload r = PNowPlaying d"
  unfolding well_shaped_def by (metis fst_conv)

lemma well_shaped_queue:
  "well_shaped chan \<Longrightarrow> chan c ''player/get_queue'' ps w = (Inr r, w') \<Longrightarrow> result r \<Longrightarrow>
   \<exists>xs. payload r = PQueue xs"
  unfolding well_shaped_def by (metis fst_conv)

lemma verify_now_playing_total:
  assumes "heos_only chan" and "well_shaped chan"
  shows "fst (verify_now_playing chan eid pid c e) = Inr ()"
proof (cases rule: command_cases[of chan c "''player/get_now_playing_media''" "[(''pid'', VInt pid)]" e])
  case (1 x w')
  then obtain m where "x = HeosError m" using heos_onlyD[OF assms(1)] by blast
  with 1 show ?thesis by (simp add: verify_now_playing_def)
next
  case (2 r w')
  show ?thesis
  proof (cases "result r")
    case True
    then obtain d where "payload r = PNowPlaying d"
      using well_shaped_now_playing[OF assms(2) 2(2)] by blast
    with 2 True show ?thesis by (simp add: verify_now_playing_def Let_def)
  next
    case False
    with 2 show ?thesis by (simp add: verify_now_playing_def)
  qed
qed

lemma remove_others_total:
  assumes "heos_only chan" and "well_shaped chan"
  shows "fst (remove_others chan eid pid c (PQueue xs) q e) = Inr ()"
proof -
  let ?e = "logger DEBUG ''%s: removing queue items %s from player %s''
              [AStr ''clear_queue_except_now_playing'',
               AStr (join '','' (map (\<lambda>i. str_int (item_qid i)) (filter (\<lambda>i. item_qid i \<noteq> q) xs))),
               AStr eid] e"
  show ?thesis
  proof (cases rule: command_cases[of chan c "''player/remove_from_queue''"
      "[(''pid'', VInt pid), (''qid'', VStr (join '','' (map (\<lambda>i. str_int (item_qid i)) (filter (\<lambda>i. item_qid i \<noteq> q) xs))))]" ?e])
    case (1 x w')
    then obtain m where "x = HeosError m" using heos_onlyD[OF assms(1)] by blast
    with 1 show ?thesis
      by (simp add: remove_others_def verify_now_playing_total[OF assms])
  next
    case (2 r w')
    then show ?thesis
      by (simp add: remove_others_def verify_now_playing_total[OF assms])
  qed
qed

lemma fetch_now_playing_total:
  assumes "heos_only chan" and "well_shaped chan"
  shows "fst (fetch_now_playing chan eid pid c (PQueue xs) e) = Inr ()"
proof (cases rule: command_cases[of chan c "''player/get_now_playing_media''" "[(''pid'', VInt pid)]" e])
  case (1 x w')
  then obtain m where "x = HeosError m" using heos_onlyD[OF assms(1)] by blast
  with 1 show ?thesis by (simp add: fetch_now_playing_def)
next
  case (2 r w')
  show ?thesis
  proof (cases "result r")
    case True
    then obtain d where "payload r = PNowPlaying d"
      using well_shaped_now_playing[OF assms(2) 2(2)] by blast
    with 2 True show ?thesis by (simp add: fetch_now_playing_def remove_others_total[OF assms])
  next
    case False
    with 2 show ?thesis by (simp add: fetch_now_playing_def)
  qed
qed

lemma clear_queue_except_now_playing_handler_total:
  assumes "heos_only chan" and "well_shaped chan"
  shows "fst (clear_queue_except_now_playing_handler chan eid pid c s) = Inr ()"
proof (cases rule: command_cases[of chan c "''player/get_queue''" "[(''pid'', VInt pid)]" "snd s"])
  case (1 x w')
  then obtain m where "x = HeosError m" using heos_onlyD[OF assms(1)] by blast
  with 1 show ?thesis by (simp add: clear_queue_except_now_playing_handler_def)
next
  case (2 r w')
  show ?thesis
  proof (cases "result r")
    case True
    then obtain xs where "payload r = PQueue xs"
      using well_shaped_queue[OF assms(2) 2(2)] by blast
    with 2 True show ?thesis
      using fetch_now_playing_total[OF assms, of eid pid c xs]
      by (simp add: clear_queue_except_now_playing_handler_def case_prod_beta)
  next
    case False
    with 2 show ?thesis by (simp add: clear_queue_except_now_playing_handler_def)
  qed
qed

lemma dispatch_total:
  assumes "\<And>eid pid c s. fst (cb eid pid c s) = Inr ()"
  shows "fst (async_exec_command hass call cb s) = Inr () \<and>
         invocations hass call cb s = map target_of (targets hass call)"
  using for_entities_recording_total[of cb, OF assms, of "entities hass call" "[]"]
    for_entities_recording_result[of cb "entities hass call" "[]"]
  by (cases s) (simp add: async_exec_command_def invocations_def targets_def)


lemma entities_deduplicated: "entities (deduplicated hass) call = entities hass call"
  by (simp add: deduplicated_def entities_def async_get_platforms_def)

lemma set_entities:
  "set (entities hass call) = (\<Union>ep \<in> set (async_get_platforms hass ''heos''). set (ep call))"
  by (simp add: entities_def)

lemma invocations_distinct: "distinct (invocations hass call cb s)"
proof -
  obtain k where "invocations hass call cb s = take k (map target_of (targets hass call))"
    using for_entities_recording_prefix[of cb "entities hass call" "[]"]
    by (auto simp: invocations_def async_exec_command_def targets_def)
  then show ?thesis
    using distinct_targets_map[OF distinct_entities, of hass call]
    by (simp add: targets_def distinct_take)
qed

lemma heos_only_a_down: "heos_only chan_a_down"
  by (simp add: heos_only_def chan_a_down_def chan_player_def)

lemma well_shaped_a_down: "well_shaped chan_a_down"
  by (simp add: well_shaped_def chan_a_down_def chan_player_def queue_123_def)

lemma digit_cases: "d < 10 \<Longrightarrow> d \<in> {0, 1, 2, 3, 4, 5, 6, 7, 8, 9::nat}"
  by auto

lemma digit_char_props:
  assumes "d < 10"
  shows "digit_val (digit_char d) = d" and "digit_char d \<noteq> CHR '',''" and "digit_char d \<noteq> CHR ''-''"
  using digit_cases[OF assms] by (auto simp: digit_char_def digit_val_def)

lemma str_nat_props:
  "nat_of_str (str_nat n) = n \<and> CHR '','' \<notin> set (str_nat n) \<and> CHR ''-'' \<notin> set (str_nat n) \<and>
   str_nat n \<noteq> []"
proof (induction n rule: str_nat.induct)
  case (1 n)
  show ?case
  proof (cases "n < 10")
    case True
    then show ?thesis
      using digit_char_props[of n] by (simp add: str_nat.simps[of n] nat_of_str_def)
  next
    case False
    have m: "n mod 10 < 10" by simp
    show ?thesis
      using False 1 digit_char_props[OF m]
      by (simp add: str_nat.simps[of n] nat_of_str_def)
  qed
qed

lemma str_int_props:
  "int_of_str (str_int i) = i \<and> CHR '','' \<notin> set (str_int i) \<and> str_int i \<noteq> []"
proof (cases "i < 0")
  case True
  then show ?thesis using str_nat_props[of "nat (- i)"] by (simp add: str_int_def int_of_str_def)
next
  case False
  have "hd (str_nat (nat i)) \<noteq> CHR ''-''"
    using str_nat_props[of "nat i"] by (cases "str_nat (nat i)") auto
  then show ?thesis using False str_nat_props[of "nat i"] by (simp add: str_int_def int_of_str_def)
qed

lemma split_on_none: "sep \<notin> set s \<Longrightarrow> split_on sep s = [s]"
  by (induction s) auto

lemma split_on_append: "sep \<notin> set s \<Longrightarrow> split_on sep (s @ sep # t) = s # split_on sep t"
  by (induction s) auto

lemma split_on_join:
  "ss \<noteq> [] \<Longrightarrow> \<forall>s \<in> set ss. sep \<notin> set s \<Longrightarrow> split_on sep (join [sep] ss) = ss"
  by (induction "[sep]" ss rule: join.induct) (auto simp: split_on_none split_on_append)

lemma join_nonempty: "ss \<noteq> [] \<Longrightarrow> \<forall>s \<in> set ss. s \<noteq> [] \<Longrightarrow> join sep ss \<noteq> []"
  by (induction sep ss rule: join.induct) auto

lemma qids_of_join: "qids_of (join '','' (map str_int qs)) = qs"
proof (cases qs)
  case Nil
  then show ?thesis by (simp add: qids_of_def)
next
  case (Cons q qs')
  have ne: "map str_int qs \<noteq> []" using Cons by simp
  have a: "\<forall>s \<in> set (map str_int qs). CHR '','' \<notin> set s" using str_int_props by auto
  have b: "\<forall>s \<in> set (map str_int qs). s \<noteq> []" using str_int_props by auto
  have "map int_of_str (map str_int qs) = qs"
    using str_int_props by (simp add: map_idI)
  then show ?thesis
    using split_on_join[OF ne a] join_nonempty[OF ne b] by (simp add: qids_of_def)
qed


lemma sent_verify_now_playing:
  "sent (snd (verify_now_playing chan eid pid c e)) =
     sent e @ [(c, ''player/get_now_playing_media'', [(''pid'', VInt pid)])]"
proof (cases rule: command_cases[of chan c "''player/get_now_playing_media''" "[(''pid'', VInt pid)]" e])
  case (1 x w')
  then show ?thesis by (cases x) (simp_all add: verify_now_playing_def)
next
  case (2 r w')
  then show ?thesis
    by (cases "getitem_qid (payload r)") (simp_all add: verify_now_playing_def Let_def)
qed

lemma verify_never_heos: "fst (verify_now_playing chan eid pid c e) \<noteq> Inl (HeosError m)"
proof (cases rule: command_cases[of chan c "''player/get_now_playing_media''" "[(''pid'', VInt pid)]" e])
  case (1 x w')
  then show ?thesis by (cases x) (simp_all add: verify_now_playing_def)
next
  case (2 r w')
  then show ?thesis
    by (cases "payload r") (simp_all add: verify_now_playing_def Let_def)
qed

lemma filter_qids:
  "map (\<lambda>i. str_int (item_qid i)) (filter (\<lambda>i. item_qid i \<noteq> p) xs) =
   map str_int (filter (\<lambda>q. q \<noteq> p) (map item_qid xs))"
  by (induction xs) auto

lemma remove_others_sent:
  "sent (snd (remove_others chan eid pid c (PQueue xs) p e)) =
     sent e @ [(c, ''player/remove_from_queue'',
                [(''pid'', VInt pid),
                 (''qid'', VStr (join '','' (map str_int (filter (\<lambda>q. q \<noteq> p) (map item_qid xs)))))])] \<or>
   sent (snd (remove_others chan eid pid c (PQueue xs) p e)) =
     sent e @ [(c, ''player/remove_from_queue'',
                [(''pid'', VInt pid),
                 (''qid'', VStr (join '','' (map str_int (filter (\<lambda>q. q \<noteq> p) (map item_qid xs)))))]),
               (c, ''player/get_now_playing_media'', [(''pid'', VInt pid)])]"
proof -
  let ?ids = "join '','' (map str_int (filter (\<lambda>q. q \<noteq> p) (map item_qid xs)))"
  let ?e = "logger DEBUG ''%s: removing queue items %s from player %s''
              [AStr ''clear_queue_except_now_playing'', AStr ?ids, AStr eid] e"
  show ?thesis
  proof (cases rule: command_cases[of chan c "''player/remove_from_queue''"
      "[(''pid'', VInt pid), (''qid'', VStr ?ids)]" ?e])
    case (1 x w')
    then show ?thesis
      by (cases x) (simp_all add: remove_others_def filter_qids sent_verify_now_playing)
  next
    case (2 r w')
    then show ?thesis
      by (simp add: remove_others_def filter_qids sent_verify_now_playing)
  qed
qed

lemma remove_others_heos:
  assumes "chan c ''player/remove_from_queue''
             [(''pid'', VInt pid),
              (''qid'', VStr (join '','' (map str_int (filter (\<lambda>q. q \<noteq> p) (map item_qid xs)))))]
             (world e) = (Inl (HeosError m), wc)"
  shows "remove_others chan eid pid c (PQueue xs) p e =
           verify_now_playing chan eid pid c
             ((logger DEBUG ''%s: removing queue items %s from player %s''
                 [AStr ''clear_queue_except_now_playing'',
                  AStr (join '','' (map str_int (filter (\<lambda>q. q \<noteq> p) (map item_qid xs)))),
                  AStr eid] e)
              \<lparr>world := wc,
               sent := sent e @ [(c, ''player/remove_from_queue'',
                 [(''pid'', VInt pid),
                  (''qid'', VStr (join '','' (map str_int (filter (\<lambda>q. q \<noteq> p) (map item_qid xs)))))])]\<rparr>)"
  using assms by (simp add: remove_others_def filter_qids command_def)

lemma fetch_now_playing_ok:
  assumes "chan c ''player/get_now_playing_media'' [(''pid'', VInt pid)] (world e) = (Inr rb, wb)"
    and "result rb" and "payload rb = PNowPlaying d"
  shows "fetch_now_playing chan eid pid c Q e =
           remove_others chan eid pid c Q (np_qid d)
             (logger DEBUG ''%s: now playing queue id %d for player %s''
                [AStr ''clear_queue_except_now_playing'', AInt (np_qid d), AStr eid]
                (e\<lparr>world := wb,
                   sent := sent e @ [(c, ''player/get_now_playing_media'', [(''pid'', VInt pid)])]\<rparr>))"
  using assms by (simp add: fetch_now_playing_def command_def)

lemma handler_long_queue:
  assumes "chan c ''player/get_queue'' [(''pid'', VInt pid)] (world (snd s)) = (Inr ra, wa)"
    and "result ra" and "payload ra = PQueue xs" and "1 < length xs"
  shows "clear_queue_except_now_playing_handler chan eid pid c s =
           (fst (fetch_now_playing chan eid pid c (PQueue xs)
                   ((snd s)\<lparr>world := wa,
                             sent := sent (snd s) @ [(c, ''player/get_queue'', [(''pid'', VInt pid)])]\<rparr>)),
            fst s,
            snd (fetch_now_playing chan eid pid c (PQueue xs)
                   ((snd s)\<lparr>world := wa,
                             sent := sent (snd s) @ [(c, ''player/get_queue'', [(''pid'', VInt pid)])]\<rparr>)))"
  using assms by (simp add: clear_queue_except_now_playing_handler_def command_def case_prod_beta)

lemma remove_outcomes_filter:
  "remove_outcomes chan q (filter is_heos es) w = remove_outcomes chan q es w"
  by (induction chan q es w rule: remove_outcomes.induct) (auto split: prod.splits sum.splits)

lemma remove_outcomes_ids:
  "map fst (remove_outcomes chan q es w) = map entity_id_of (filter is_heos es)"
  by (induction chan q es w rule: remove_outcomes.induct) (auto split: prod.splits sum.splits)

lemma in_with_removal: "k \<in> set (with_removal oc os) \<longleftrightarrow> (k, oc) \<in> set os"
  by (auto simp: with_removal_def intro: rev_image_eqI)

lemma with_removal_disjoint:
  assumes "distinct (map fst os)" and "oc \<noteq> oc'"
  shows "set (with_removal oc os) \<inter> set (with_removal oc' os) = {}"
proof -
  have False if "k \<in> set (with_removal oc os)" and "k \<in> set (with_removal oc' os)" for k
  proof -
    have "(k, oc) \<in> set os" and "(k, oc') \<in> set os"
      using that by (simp_all add: in_with_removal)
    then have "oc = oc'" using assms(1) by (rule eq_key_imp_eq_value[rotated])
    then show False using assms(2) by blast
  qed
  then show ?thesis by blast
qed

lemma remove_loop:
  assumes "heos_only chan"
  shows "fst (for_entities (remove_from_queue_handler chan q) es (E, e)) = Inr () \<and>
         fst (snd (for_entities (remove_from_queue_handler chan q) es (E, e))) =
           E @ with_removal RemoveRaised (remove_outcomes chan q es (world e))"
proof (induction es arbitrary: E e)
  case Nil then show ?case by (simp add: with_removal_def)
next
  case (Cons a es)
  show ?case
  proof (cases a)
    case (OtherEntity eid)
    then show ?thesis using Cons by simp
  next
    case (HeosMediaPlayer eid pid c)
    show ?thesis
    proof (cases rule: command_cases[of chan c "''player/remove_from_queue''"
        "[(''pid'', VInt pid), (''qid'', VInt q)]" e])
      case (1 x w')
      then obtain m where x: "x = HeosError m" using heos_onlyD[OF assms] by blast
      show ?thesis
        using HeosMediaPlayer 1 x Cons.IH[of "E @ [eid]"]
        by (simp add: remove_from_queue_handler_def with_removal_def)
    next
      case (2 r w')
      show ?thesis
        using HeosMediaPlayer 2 Cons.IH[of E]
        by (simp add: remove_from_queue_handler_def with_removal_def)
    qed
  qed
qed

section \<open>Claims\<close>

text \<open>
  C1, as stated, fails. Two players are resolved; the callback raises for the first one, and
  the second one is never invoked: the dispatch has no \<^verbatim>\<open>try\<close> around the callback.
\<close>

theorem dispatch_raising_counterexample:
  "targets hass_ab call_plain = [player_a, player_b] \<and>
   invocations hass_ab call_plain raising ((), env0) = [(''media_player.a'', 1, 0)]"
  by (simp add: targets_ab invocations_def async_exec_command_def entities_ab)
     (simp add: player_a_def player_b_def recording_def raising_def)

text \<open>
  C1, amended. For every per-device function that returns normally on every device, whatever
  it records as success or failure, \<^verbatim>\<open>async_exec_command\<close> returns normally and invokes
  the function exactly once per resolved target: the invocations are the resolved targets,
  in their order, and no target is there twice.
\<close>

theorem dispatch_once_per_target:
  assumes "\<forall>eid pid c s. fst (cb eid pid c s) = Inr ()"
  shows "fst (async_exec_command hass call cb s) = Inr () \<and>
         invocations hass call cb s = map target_of (targets hass call) \<and>
         distinct (map target_of (targets hass call))"
proof -
  have "fst (cb eid pid c s) = Inr ()" for eid pid c s
    using assms by blast
  then show ?thesis
    using dispatch_total[of cb hass call s] distinct_targets_map[OF distinct_entities, of hass call]
    by (simp add: targets_def)
qed

theorem dispatch_once_per_target_witness:
  "(\<forall>eid pid c s. fst (clear_queue_handler chan_a_down eid pid c (s :: unit \<times> bool env)) = Inr ()) \<and>
   fst (async_exec_command hass_ab call_plain (clear_queue_handler chan_a_down) ((), env1)) = Inr () \<and>
   invocations hass_ab call_plain (clear_queue_handler chan_a_down) ((), env1) =
     [(''media_player.a'', 1, 0), (''media_player.b'', 2, 0)]"
proof -
  have h: "\<forall>eid pid c s. fst (clear_queue_handler chan_a_down eid pid c (s :: unit \<times> bool env)) = Inr ()"
    by (simp add: clear_queue_handler_total[OF heos_only_a_down])
  show ?thesis
    using h dispatch_once_per_target [OF h, of hass_ab call_plain "((), env1)"]
    by (simp add: targets_ab target_of_def player_a_def player_b_def)
qed

text \<open>
  C2, as stated, fails. The channel raises an exception that is no \<open>HeosError\<close> inside
  the handler of \<^verbatim>\<open>clear_queue\<close> for the first of two players: the exception leaves the
  dispatch, and the only command ever sent is the one to the first player.
\<close>

theorem dispatch_propagates_counterexample:
  "fst (async_exec_command hass_ab call_plain (clear_queue_handler chan_cancelled) ((), env0)) =
     Inl (OtherException ''CancelledError'') \<and>
   sent (snd (snd (async_exec_command hass_ab call_plain (clear_queue_handler chan_cancelled) ((), env0)))) =
     [(0, ''player/clear_queue'', [(''pid'', VInt 1)])]"
  by (simp add: async_exec_command_def entities_ab)
     (simp add: player_a_def player_b_def clear_queue_handler_def command_def chan_cancelled_def env0_def)

text \<open>
  C2, amended. A \<open>HeosError\<close> that the channel raises for one device is caught inside the
  handler of each of the four services, not by the dispatch. So when the channel raises
  nothing but \<open>HeosError\<close> (and, for \<^verbatim>\<open>clear_queue_except_now_playing\<close>, answers with
  payloads of the declared shapes), the dispatch returns normally and invokes the handler
  for every resolved target, whichever devices raised.
\<close>

theorem heos_error_isolated:
  assumes "heos_only chan"
  shows "(fst (async_exec_command hass call (clear_queue_handler chan) s1) = Inr () \<and>
          invocations hass call (clear_queue_handler chan) s1 = map target_of (targets hass call)) \<and>
         (fst (async_exec_command hass call (get_queue_handler chan) s2) = Inr () \<and>
          invocations hass call (get_queue_handler chan) s2 = map target_of (targets hass call)) \<and>
         (fst (async_exec_command hass call (remove_from_queue_handler chan qid) s3) = Inr () \<and>
          invocations hass call (remove_from_queue_handler chan qid) s3 = map target_of (targets hass call)) \<and>
         (well_shaped chan \<longrightarrow>
          fst (async_exec_command hass call (clear_queue_except_now_playing_handler chan) s4) = Inr () \<and>
          invocations hass call (clear_queue_except_now_playing_handler chan) s4 =
            map target_of (targets hass call))"
proof (intro conjI impI)
  assume ws: "well_shaped chan"
  show "fst (async_exec_command hass call (clear_queue_except_now_playing_handler chan) s4) = Inr ()"
    and "invocations hass call (clear_queue_except_now_playing_handler chan) s4 =
            map target_of (targets hass call)"
    using dispatch_total[of "clear_queue_except_now_playing_handler chan" hass call s4,
        OF clear_queue_except_now_playing_handler_total[OF assms ws]] by simp_all
qed (simp_all add: dispatch_total clear_queue_handler_total[OF assms]
      get_queue_handler_total[OF assms] remove_from_queue_handler_total[OF assms])

theorem heos_error_isolated_witness:
  "heos_only chan_a_down \<and> well_shaped chan_a_down \<and>
   fst (chan_a_down 0 ''player/get_queue'' [(''pid'', VInt 1)] False) = Inl (HeosError ''unreachable'') \<and>
   fst (async_exec_command hass_ab call_plain (get_queue_handler chan_a_down) (([], []), env1)) = Inr () \<and>
   invocations hass_ab call_plain (get_queue_handler chan_a_down) (([], []), env1) =
     [(''media_player.a'', 1, 0), (''media_player.b'', 2, 0)] \<and>
   invocations hass_ab call_plain (clear_queue_except_now_playing_handler chan_a_down) ((), env1) =
     [(''media_player.a'', 1, 0), (''media_player.b'', 2, 0)]"
proof -
  have h1: "heos_only chan_a_down" by (rule heos_only_a_down)
  have h2: "well_shaped chan_a_down" by (rule well_shaped_a_down)
  show ?thesis
    using h1 h2
      heos_error_isolated [OF h1, of hass_ab call_plain "((), env1)" "(([], []), env1)" 0 "([], env1)"
        "((), env1)"]
    by (simp add: targets_ab target_of_def player_a_def player_b_def chan_a_down_def)
qed

text \<open>
  C3, as stated, fails. Of two resolved players, the first answers \<^verbatim>\<open>player/get_queue\<close>
  with an unset result flag, so one of two devices fails; yet the list of errors is empty
  where the claim wants one entry.
\<close>

theorem get_queue_unsuccessful_counterexample:
  "targets hass_ab call_plain = [player_a, player_b] \<and>
   fst (chan_flag (connection_of player_a) ''player/get_queue'' [(''pid'', VInt (player_id_of player_a))] ())
     = Inr \<lparr>result = False, payload = PNone\<rparr> \<and>
   fst (get_queue_callback hass_ab chan_flag call_plain env0) =
     Inr (Some (GetQueueResponse 1 [(''media_player.b'', queue_12)] []))"
  by (simp add: targets_ab get_queue_callback_def async_exec_command_def entities_ab)
     (simp add: player_a_def player_b_def get_queue_handler_def command_def chan_flag_def env0_def)

text \<open>
  C3, amended. Let the channel raise nothing but \<open>HeosError\<close> and let the resolved
  players have different entity ids. Of \<open>N\<close> resolved players, let \<open>M\<close> raise and \<open>K\<close>
  answer with an unset result flag. Then \<^verbatim>\<open>get_queue\<close> returns an aggregate whose count is
  \<open>N - M - K\<close> (the count, \<open>M\<close> and \<open>K\<close> add up to \<open>N\<close>), whose map of queues has as
  many keys, and whose list of errors is the \<open>M\<close> players that raised, in the order of the
  dispatch; no player that raised is a key of the map.
\<close>

theorem get_queue_counts:
  assumes "heos_only chan" and "distinct (map entity_id_of (targets hass call))"
  shows "\<exists>r. fst (get_queue_callback hass chan call e) = Inr (Some r) \<and>
           count r
             + length (with_outcome Raised (get_queue_outcomes chan (targets hass call) (world e)))
             + length (with_outcome Unsuccessful (get_queue_outcomes chan (targets hass call) (world e)))
             = length (targets hass call) \<and>
           length (queues r) = count r \<and>
           errors r = with_outcome Raised (get_queue_outcomes chan (targets hass call) (world e)) \<and>
           set (errors r) \<inter> fst ` set (queues r) = {}"
proof -
  let ?os = "get_queue_outcomes chan (targets hass call) (world e)"
  let ?r = "GetQueueResponse (length (fetched ?os)) (fetched ?os) (with_outcome Raised ?os)"
  have n: "length ?os = length (targets hass call)"
    using arg_cong[OF outcomes_ids[of chan "targets hass call" "world e"], of length]
    by (simp add: targets_def)
  have d: "distinct (map fst ?os)"
    using assms(2) by (simp add: outcomes_ids targets_def)
  have c: "length (fetched ?os) + length (with_outcome Raised ?os)
             + length (with_outcome Unsuccessful ?os) = length (targets hass call)"
    using outcome_lengths[of ?os] n by simp
  have j: "set (with_outcome Raised ?os) \<inter> fst ` set (fetched ?os) = {}"
    using fetched_disjoint[OF d, of Raised] by auto
  have "fst (get_queue_callback hass chan call e) = Inr (Some ?r)"
    by (rule get_queue_callback_eq[OF assms])
  then show ?thesis using c j by simp
qed

theorem get_queue_counts_witness:
  "heos_only chan_mixed \<and> distinct (map entity_id_of (targets hass_abc call_plain)) \<and>
   (\<exists>r. fst (get_queue_callback hass_abc chan_mixed call_plain env0) = Inr (Some r) \<and>
        count r + 1 + 1 = 3 \<and> length (queues r) = count r \<and> errors r = [''media_player.a''])"
proof -
  have h1: "heos_only chan_mixed"
    by (simp add: heos_only_def chan_mixed_def)
  have h2: "distinct (map entity_id_of (targets hass_abc call_plain))"
    by (simp add: targets_abc player_a_def player_b_def player_c_def)
  have os: "get_queue_outcomes chan_mixed (targets hass_abc call_plain) (world env0) =
      [(''media_player.a'', Raised), (''media_player.b'', Unsuccessful),
       (''media_player.c'', Fetched queue_12)]"
    by (simp add: targets_abc player_a_def player_b_def player_c_def chan_mixed_def)
  show ?thesis
    using h1 h2 get_queue_counts [OF h1 h2, of env0, unfolded os]
    by (auto simp: with_outcome_def targets_abc)
qed

text \<open>
  C4. When the service data of \<^verbatim>\<open>remove_from_queue\<close> holds no \<^verbatim>\<open>queue_id\<close>, the
  callback returns no response body, sends no command to any device and leaves the remote
  devices as they were; apart from the debug line of every call it logs one error, the
  missing \<^verbatim>\<open>queue_id\<close>, and the dispatch never starts.
\<close>

theorem remove_from_queue_missing_queue_id:
  assumes "map_of (data call) ''queue_id'' = None"
  shows "fst (remove_from_queue_callback hass chan call e) = Inr None \<and>
         sent (snd (remove_from_queue_callback hass chan call e)) = sent e \<and>
         world (snd (remove_from_queue_callback hass chan call e)) = world e \<and>
         logged (snd (remove_from_queue_callback hass chan call e)) =
           logged e @
             [LogEntry DEBUG ''%s service call: %s'' [AStr ''remove_from_queue'', AObj],
              LogEntry ERROR ''%s: missing queue_id in service data'' [AStr ''remove_from_queue'']]"
  using assms by (simp add: remove_from_queue_callback_def)

theorem remove_from_queue_missing_queue_id_witness:
  "map_of (data call_plain) ''queue_id'' = None \<and>
   fst (remove_from_queue_callback hass_ab chan_ok call_plain env0) = Inr None \<and>
   sent (snd (remove_from_queue_callback hass_ab chan_ok call_plain env0)) = []"
proof -
  have h: "map_of (data call_plain) ''queue_id'' = None"
    by (simp add: call_plain_def)
  show ?thesis
    using h remove_from_queue_missing_queue_id [OF h, of hass_ab chan_ok env0]
    by (simp add: env0_def)
qed

text \<open>
  C5. When \<^verbatim>\<open>player/get_queue\<close> succeeds for a device with a queue of at most one item, the
  handler of \<^verbatim>\<open>clear_queue_except_now_playing\<close> returns normally and the fetch is the only
  command it has sent: no \<^verbatim>\<open>player/get_now_playing_media\<close>, no
  \<^verbatim>\<open>player/remove_from_queue\<close>.
\<close>

theorem short_queue_stops_after_fetch:
  assumes "chan c ''player/get_queue'' [(''pid'', VInt pid)] (world (snd s)) = (Inr r, w')"
    and "result r" and "payload r = PQueue xs" and "length xs \<le> 1"
  shows "fst (clear_queue_except_now_playing_handler chan eid pid c s) = Inr () \<and>
         sent (snd (snd (clear_queue_except_now_playing_handler chan eid pid c s))) =
           sent (snd s) @ [(c, ''player/get_queue'', [(''pid'', VInt pid)])] \<and>
         world (snd (snd (clear_queue_except_now_playing_handler chan eid pid c s))) = w'"
  using assms by (simp add: clear_queue_except_now_playing_handler_def command_def)

theorem short_queue_stops_after_fetch_witness:
  "chan_single 0 ''player/get_queue'' [(''pid'', VInt 1)] (world (snd ((), env0))) =
     (Inr \<lparr>result = True, payload = PQueue [QueuedItemDict 7 []]\<rparr>, ()) \<and>
   length [QueuedItemDict 7 []] \<le> 1 \<and>
   fst (clear_queue_except_now_playing_handler chan_single ''media_player.a'' 1 0 ((), env0)) = Inr () \<and>
   sent (snd (snd (clear_queue_except_now_playing_handler chan_single ''media_player.a'' 1 0 ((), env0)))) =
     [(0, ''player/get_queue'', [(''pid'', VInt 1)])]"
proof -
  have h: "chan_single 0 ''player/get_queue'' [(''pid'', VInt 1)] (world (snd ((), env0))) =
     (Inr \<lparr>result = True, payload = PQueue [QueuedItemDict 7 []]\<rparr>, ())"
    by (simp add: chan_single_def)
  show ?thesis
    using h short_queue_stops_after_fetch
        [where chan = chan_single and c = 0 and pid = 1 and s = "((), env0)"
           and xs = "[QueuedItemDict 7 []]" and eid = "''media_player.a''", OF h]
    by (simp add: env0_def)
qed

text \<open>
  C6. When the fetched queue has more than one item and the fetch of the now-playing item
  succeeds, the commands the handler sends are the two fetches, one
  \<^verbatim>\<open>player/remove_from_queue\<close>, and at most the second fetch of the now-playing item. The
  removal carries the comma-joined ids of the queued items whose id differs from the
  now-playing one: read back, the string names exactly these ids, in the order of the queue.
\<close>

theorem batched_removal_ids:
  assumes "chan c ''player/get_queue'' [(''pid'', VInt pid)] (world (snd s)) = (Inr ra, wa)"
    and "result ra" and "payload ra = PQueue xs" and "1 < length xs"
    and "chan c ''player/get_now_playing_media'' [(''pid'', VInt pid)] wa = (Inr rb, wb)"
    and "result rb" and "payload rb = PNowPlaying d"
  shows "\<exists>ids.
           ids = join '','' (map str_int (filter (\<lambda>q. q \<noteq> np_qid d) (map item_qid xs))) \<and>
           qids_of ids = filter (\<lambda>q. q \<noteq> np_qid d) (map item_qid xs) \<and>
           (sent (snd (snd (clear_queue_except_now_playing_handler chan eid pid c s))) =
              sent (snd s) @
                [(c, ''player/get_queue'', [(''pid'', VInt pid)]),
                 (c, ''player/get_now_playing_media'', [(''pid'', VInt pid)]),
                 (c, ''player/remove_from_queue'', [(''pid'', VInt pid), (''qid'', VStr ids)])] \<or>
            sent (snd (snd (clear_queue_except_now_playing_handler chan eid pid c s))) =
              sent (snd s) @
                [(c, ''player/get_queue'', [(''pid'', VInt pid)]),
                 (c, ''player/get_now_playing_media'', [(''pid'', VInt pid)]),
                 (c, ''player/remove_from_queue'', [(''pid'', VInt pid), (''qid'', VStr ids)]),
                 (c, ''player/get_now_playing_media'', [(''pid'', VInt pid)])])"
proof -
  let ?e1 = "(snd s)\<lparr>world := wa,
               sent := sent (snd s) @ [(c, ''player/get_queue'', [(''pid'', VInt pid)])]\<rparr>"
  let ?e2 = "logger DEBUG ''%s: now playing queue id %d for player %s''
               [AStr ''clear_queue_except_now_playing'', AInt (np_qid d), AStr eid]
               (?e1\<lparr>world := wb,
                  sent := sent ?e1 @ [(c, ''player/get_now_playing_media'', [(''pid'', VInt pid)])]\<rparr>)"
  have w: "chan c ''player/get_now_playing_media'' [(''pid'', VInt pid)] (world ?e1) = (Inr rb, wb)"
    using assms(5) by simp
  have h: "snd (snd (clear_queue_except_now_playing_handler chan eid pid c s)) =
        snd (remove_others chan eid pid c (PQueue xs) (np_qid d) ?e2)"
    using handler_long_queue[where chan = chan and c = c and pid = pid and s = s and eid = eid,
        OF assms(1-4)]
      fetch_now_playing_ok[where chan = chan and c = c and pid = pid and e = ?e1 and eid = eid
        and Q = "PQueue xs", OF w assms(6,7)]
    by simp
  show ?thesis
    using remove_others_sent[of chan eid pid c xs "np_qid d" ?e2]
    by (simp add: h qids_of_join)
qed

theorem batched_removal_ids_witness:
  "chan_player 0 ''player/get_queue'' [(''pid'', VInt 1)] (world (snd ((), env1))) =
     (Inr \<lparr>result = True,
           payload = PQueue [QueuedItemDict 1 [], QueuedItemDict 2 [], QueuedItemDict 3 []]\<rparr>, False) \<and>
   chan_player 0 ''player/get_now_playing_media'' [(''pid'', VInt 1)] False =
     (Inr \<lparr>result = True, payload = PNowPlaying (NowPlayingDict Song 2)\<rparr>, False) \<and>
   qids_of ''1,3'' = [1, 3] \<and>
   (sent (snd (snd (clear_queue_except_now_playing_handler chan_player ''media_player.a'' 1 0 ((), env1)))) =
      [(0, ''player/get_queue'', [(''pid'', VInt 1)]),
       (0, ''player/get_now_playing_media'', [(''pid'', VInt 1)]),
       (0, ''player/remove_from_queue'', [(''pid'', VInt 1), (''qid'', VStr ''1,3'')])] \<or>
    sent (snd (snd (clear_queue_except_now_playing_handler chan_player ''media_player.a'' 1 0 ((), env1)))) =
      [(0, ''player/get_queue'', [(''pid'', VInt 1)]),
       (0, ''player/get_now_playing_media'', [(''pid'', VInt 1)]),
       (0, ''player/remove_from_queue'', [(''pid'', VInt 1), (''qid'', VStr ''1,3'')]),
       (0, ''player/get_now_playing_media'', [(''pid'', VInt 1)])])"
proof -
  have h1: "chan_player 0 ''player/get_queue'' [(''pid'', VInt 1)] (world (snd ((), env1))) =
     (Inr \<lparr>result = True,
           payload = PQueue [QueuedItemDict 1 [], QueuedItemDict 2 [], QueuedItemDict 3 []]\<rparr>, False)"
    by (simp add: chan_player_def env1_def queue_123_def)
  have h2: "chan_player 0 ''player/get_now_playing_media'' [(''pid'', VInt 1)] False =
     (Inr \<lparr>result = True, payload = PNowPlaying (NowPlayingDict Song 2)\<rparr>, False)"
    by (simp add: chan_player_def)
  have j: "str_int 1 = ''1''" "str_int 3 = ''3''"
    by (simp_all add: str_int_def str_nat.simps digit_char_def)
  show ?thesis
    using h1 h2 batched_removal_ids
        [where chan = chan_player and c = 0 and pid = 1 and s = "((), env1)" and eid = "''media_player.a''"
           and xs = "[QueuedItemDict 1 [], QueuedItemDict 2 [], QueuedItemDict 3 []]"
           and d = "NowPlayingDict Song 2",
         OF h1 _ _ _ h2]
    by (simp add: j env1_def)
qed

text \<open>
  C7, as stated, fails in one point: the failure of the removal is not logged. Here the
  removal raises \<open>HeosError\<close>; the handler goes on to the second fetch of the now-playing
  item, and its log holds three debug lines, none for the failure
  (\<^verbatim>\<open>except HeosError: pass\<close>).
\<close>

theorem removal_failure_counterexample:
  "fst (chan_remove_raises 0 ''player/remove_from_queue'' [(''pid'', VInt 1), (''qid'', VStr ''1,3'')] False) =
     Inl (HeosError ''command failed'') \<and>
   sent (snd (snd (clear_queue_except_now_playing_handler chan_remove_raises ''media_player.a'' 1 0 ((), env1)))) =
     [(0, ''player/get_queue'', [(''pid'', VInt 1)]),
      (0, ''player/get_now_playing_media'', [(''pid'', VInt 1)]),
      (0, ''player/remove_from_queue'', [(''pid'', VInt 1), (''qid'', VStr ''1,3'')]),
      (0, ''player/get_now_playing_media'', [(''pid'', VInt 1)])] \<and>
   logged (snd (snd (clear_queue_except_now_playing_handler chan_remove_raises ''media_player.a'' 1 0 ((), env1)))) =
     [LogEntry DEBUG ''%s: now playing queue id %d for player %s''
        [AStr ''clear_queue_except_now_playing'', AInt 2, AStr ''media_player.a''],
      LogEntry DEBUG ''%s: removing queue items %s from player %s''
        [AStr ''clear_queue_except_now_playing'', AStr ''1,3'', AStr ''media_player.a''],
      LogEntry DEBUG ''%s: now playing qid %d for player %s after queue maintenance''
        [AStr ''clear_queue_except_now_playing'', AInt 1, AStr ''media_player.a'']]"
proof -
  have j: "str_int 1 = ''1''" "str_int 3 = ''3''"
    by (simp_all add: str_int_def str_nat.simps digit_char_def)
  show ?thesis
    by (simp add: clear_queue_except_now_playing_handler_def fetch_now_playing_def remove_others_def
        verify_now_playing_def command_def chan_remove_raises_def chan_player_def queue_123_def
        env1_def logger_def j)
qed

text \<open>
  C7, amended. When the batched removal raises \<open>HeosError\<close>, the handler passes over it in
  silence and goes on: it ends as the verification of lines 252 to 286 ends, started in a
  state whose log holds the two debug lines written before the removal and nothing else;
  the second fetch of the now-playing item is sent; and no \<open>HeosError\<close> leaves the
  handler, so the device is not flagged as failed.
\<close>

theorem removal_failure_ignored:
  assumes "chan c ''player/get_queue'' [(''pid'', VInt pid)] (world (snd s)) = (Inr ra, wa)"
    and "result ra" and "payload ra = PQueue xs" and "1 < length xs"
    and "chan c ''player/get_now_playing_media'' [(''pid'', VInt pid)] wa = (Inr rb, wb)"
    and "result rb" and "payload rb = PNowPlaying d"
    and "chan c ''player/remove_from_queue''
           [(''pid'', VInt pid),
            (''qid'', VStr (join '','' (map str_int (filter (\<lambda>q. q \<noteq> np_qid d) (map item_qid xs)))))]
           wb = (Inl (HeosError m), wc)"
  shows "(fst (clear_queue_except_now_playing_handler chan eid pid c s),
          snd (snd (clear_queue_except_now_playing_handler chan eid pid c s))) =
           verify_now_playing chan eid pid c
             ((snd s)\<lparr>world := wc,
                sent := sent (snd s) @
                  [(c, ''player/get_queue'', [(''pid'', VInt pid)]),
                   (c, ''player/get_now_playing_media'', [(''pid'', VInt pid)]),
                   (c, ''player/remove_from_queue'',
                    [(''pid'', VInt pid),
                     (''qid'', VStr (join '','' (map str_int
                        (filter (\<lambda>q. q \<noteq> np_qid d) (map item_qid xs)))))])],
                logged := logged (snd s) @
                  [LogEntry DEBUG ''%s: now playing queue id %d for player %s''
                     [AStr ''clear_queue_except_now_playing'', AInt (np_qid d), AStr eid],
                   LogEntry DEBUG ''%s: removing queue items %s from player %s''
                     [AStr ''clear_queue_except_now_playing'',
                      AStr (join '','' (map str_int
                        (filter (\<lambda>q. q \<noteq> np_qid d) (map item_qid xs)))),
                      AStr eid]]\<rparr>) \<and>
         sent (snd (snd (clear_queue_except_now_playing_handler chan eid pid c s))) =
           sent (snd s) @
             [(c, ''player/get_queue'', [(''pid'', VInt pid)]),
              (c, ''player/get_now_playing_media'', [(''pid'', VInt pid)]),
              (c, ''player/remove_from_queue'',
               [(''pid'', VInt pid),
                (''qid'', VStr (join '','' (map str_int
                   (filter (\<lambda>q. q \<noteq> np_qid d) (map item_qid xs)))))]),
              (c, ''player/get_now_playing_media'', [(''pid'', VInt pid)])] \<and>
         fst (clear_queue_except_now_playing_handler chan eid pid c s) \<noteq> Inl (HeosError m')"
proof -
  let ?ids = "join '','' (map str_int (filter (\<lambda>q. q \<noteq> np_qid d) (map item_qid xs)))"
  let ?e1 = "(snd s)\<lparr>world := wa,
               sent := sent (snd s) @ [(c, ''player/get_queue'', [(''pid'', VInt pid)])]\<rparr>"
  let ?e2 = "logger DEBUG ''%s: now playing queue id %d for player %s''
               [AStr ''clear_queue_except_now_playing'', AInt (np_qid d), AStr eid]
               (?e1\<lparr>world := wb,
                  sent := sent ?e1 @ [(c, ''player/get_now_playing_media'', [(''pid'', VInt pid)])]\<rparr>)"
  let ?e3 = "(logger DEBUG ''%s: removing queue items %s from player %s''
               [AStr ''clear_queue_except_now_playing'', AStr ?ids, AStr eid] ?e2)
             \<lparr>world := wc,
              sent := sent ?e2 @ [(c, ''player/remove_from_queue'',
                 [(''pid'', VInt pid), (''qid'', VStr ?ids)])]\<rparr>"
  let ?E = "(snd s)\<lparr>world := wc,
                sent := sent (snd s) @
                  [(c, ''player/get_queue'', [(''pid'', VInt pid)]),
                   (c, ''player/get_now_playing_media'', [(''pid'', VInt pid)]),
                   (c, ''player/remove_from_queue'', [(''pid'', VInt pid), (''qid'', VStr ?ids)])],
                logged := logged (snd s) @
                  [LogEntry DEBUG ''%s: now playing queue id %d for player %s''
                     [AStr ''clear_queue_except_now_playing'', AInt (np_qid d), AStr eid],
                   LogEntry DEBUG ''%s: removing queue items %s from player %s''
                     [AStr ''clear_queue_except_now_playing'', AStr ?ids, AStr eid]]\<rparr>"
  have w: "chan c ''player/get_now_playing_media'' [(''pid'', VInt pid)] (world ?e1) = (Inr rb, wb)"
    using assms(5) by simp
  have v: "chan c ''player/remove_from_queue'' [(''pid'', VInt pid), (''qid'', VStr ?ids)] (world ?e2) =
        (Inl (HeosError m), wc)"
    using assms(8) by simp
  have e: "?e3 = ?E"
    by (simp add: logger_def)
  have h: "(fst (clear_queue_except_now_playing_handler chan eid pid c s),
            snd (snd (clear_queue_except_now_playing_handler chan eid pid c s))) =
        verify_now_playing chan eid pid c ?e3"
    using handler_long_queue[where chan = chan and c = c and pid = pid and s = s and eid = eid,
        OF assms(1-4)]
      fetch_now_playing_ok[where chan = chan and c = c and pid = pid and e = ?e1 and eid = eid
        and Q = "PQueue xs", OF w assms(6,7)]
      remove_others_heos[where chan = chan and c = c and pid = pid and e = ?e2 and eid = eid
        and xs = xs and p = "np_qid d", OF v]
    by simp
  have h': "(fst (clear_queue_except_now_playing_handler chan eid pid c s),
            snd (snd (clear_queue_except_now_playing_handler chan eid pid c s))) =
        verify_now_playing chan eid pid c ?E"
    using h by (simp only: e)
  have s: "sent (snd (snd (clear_queue_except_now_playing_handler chan eid pid c s))) =
      sent ?E @ [(c, ''player/get_now_playing_media'', [(''pid'', VInt pid)])]"
    using arg_cong[OF h', of "\<lambda>p. sent (snd p)"] by (simp add: sent_verify_now_playing)
  have n: "fst (clear_queue_except_now_playing_handler chan eid pid c s) \<noteq> Inl (HeosError m')"
    using arg_cong[OF h', of fst] verify_never_heos[of chan eid pid c ?E m'] by simp
  show ?thesis using h' s n by simp
qed


theorem removal_failure_ignored_witness:
  "chan_remove_raises 0 ''player/get_queue'' [(''pid'', VInt 1)] (world (snd ((), env1))) =
     (Inr \<lparr>result = True,
           payload = PQueue [QueuedItemDict 1 [], QueuedItemDict 2 [], QueuedItemDict 3 []]\<rparr>, False) \<and>
   chan_remove_raises 0 ''player/get_now_playing_media'' [(''pid'', VInt 1)] False =
     (Inr \<lparr>result = True, payload = PNowPlaying (NowPlayingDict Song 2)\<rparr>, False) \<and>
   chan_remove_raises 0 ''player/remove_from_queue'' [(''pid'', VInt 1), (''qid'', VStr ''1,3'')] False =
     (Inl (HeosError ''command failed''), True) \<and>
   sent (snd (snd (clear_queue_except_now_playing_handler chan_remove_raises ''media_player.a'' 1 0
                     ((), env1)))) =
     [(0, ''player/get_queue'', [(''pid'', VInt 1)]),
      (0, ''player/get_now_playing_media'', [(''pid'', VInt 1)]),
      (0, ''player/remove_from_queue'', [(''pid'', VInt 1), (''qid'', VStr ''1,3'')]),
      (0, ''player/get_now_playing_media'', [(''pid'', VInt 1)])] \<and>
   fst (clear_queue_except_now_playing_handler chan_remove_raises ''media_player.a'' 1 0 ((), env1)) \<noteq>
     Inl (HeosError ''command failed'')"
proof -
  have j: "str_int 1 = ''1''" "str_int 3 = ''3''"
    by (simp_all add: str_int_def str_nat.simps digit_char_def)
  have h1: "chan_remove_raises 0 ''player/get_queue'' [(''pid'', VInt 1)] (world (snd ((), env1))) =
     (Inr \<lparr>result = True,
           payload = PQueue [QueuedItemDict 1 [], QueuedItemDict 2 [], QueuedItemDict 3 []]\<rparr>, False)"
    by (simp add: chan_remove_raises_def chan_player_def env1_def queue_123_def)
  have h2: "chan_remove_raises 0 ''player/get_now_playing_media'' [(''pid'', VInt 1)] False =
     (Inr \<lparr>result = True, payload = PNowPlaying (NowPlayingDict Song 2)\<rparr>, False)"
    by (simp add: chan_remove_raises_def chan_player_def)
  have h3: "chan_remove_raises 0 ''player/remove_from_queue''
       [(''pid'', VInt 1), (''qid'', VStr ''1,3'')] False = (Inl (HeosError ''command failed''), True)"
    by (simp add: chan_remove_raises_def)
  show ?thesis
    using h1 h2 h3 removal_failure_ignored
        [where chan = chan_remove_raises and c = 0 and pid = 1 and s = "((), env1)"
           and eid = "''media_player.a''" and ra = "\<lparr>result = True,
             payload = PQueue [QueuedItemDict 1 [], QueuedItemDict 2 [], QueuedItemDict 3 []]\<rparr>"
           and wa = False and rb = "\<lparr>result = True, payload = PNowPlaying (NowPlayingDict Song 2)\<rparr>"
           and wb = False and wc = True and m = "''command failed''"
           and xs = "[QueuedItemDict 1 [], QueuedItemDict 2 [], QueuedItemDict 3 []]"
           and d = "NowPlayingDict Song 2" and m' = "''command failed''"]
    by (simp add: j env1_def)
qed

text \<open>
  C8, as stated, fails in two points. Of three resolved players, the first raises
  \<open>HeosError\<close> on the removal and the second answers with an unset result flag: both
  devices fail, yet the response that the caller asked for names the first one only,
  because the handler never reads the result flag. And on a channel that raises an
  exception that is no \<open>HeosError\<close>, the call raises where the claim wants a response.
\<close>

theorem remove_from_queue_response_counterexample:
  "map_of (data call_remove) ''queue_id'' = Some 2 \<and> return_response call_remove \<and>
   remove_outcomes chan_remove_mixed 2 (targets hass_abc call_remove) (world env0) =
     [(''media_player.a'', RemoveRaised), (''media_player.b'', RemoveUnsuccessful),
      (''media_player.c'', Removed)] \<and>
   fst (remove_from_queue_callback hass_abc chan_remove_mixed call_remove env0) =
     Inr (Some (RemoveFromQueueResponse [''media_player.a''])) \<and>
   fst (remove_from_queue_callback hass_ab chan_cancelled call_remove env0) =
     Inl (OtherException ''CancelledError'')"
  by (simp add: targets_abc remove_from_queue_callback_def async_exec_command_def entities_abc
        entities_ab call_remove_def)
     (simp add: player_a_def player_b_def player_c_def remove_from_queue_handler_def command_def
        chan_remove_mixed_def chan_cancelled_def env0_def)

text \<open>
  C8, amended. With a \<^verbatim>\<open>queue_id\<close> in the service data and a channel that raises nothing
  but \<open>HeosError\<close>, \<^verbatim>\<open>remove_from_queue\<close> returns, when the caller asked for a response,
  the list of the devices for which the removal raised \<open>HeosError\<close>, in the order of the
  dispatch, and nothing when the caller did not; the list is the same in both cases. A
  device that answers with an unset result flag is not in the list, the resolved players
  having different entity ids.
\<close>

theorem remove_from_queue_response:
  assumes "map_of (data call) ''queue_id'' = Some qid" and "heos_only chan"
  shows "fst (remove_from_queue_callback hass chan call e) =
           Inr (if return_response call
                then Some (RemoveFromQueueResponse
                             (with_removal RemoveRaised
                                (remove_outcomes chan qid (targets hass call) (world e))))
                else None) \<and>
         (distinct (map entity_id_of (targets hass call)) \<longrightarrow>
            set (with_removal RemoveUnsuccessful (remove_outcomes chan qid (targets hass call) (world e)))
              \<inter> set (with_removal RemoveRaised
                        (remove_outcomes chan qid (targets hass call) (world e))) = {})"
proof -
  let ?e1 = "logger DEBUG ''operating on entities: %s'' [AObj]
               (logger DEBUG ''%s service call: %s'' [AStr ''remove_from_queue'', AObj] e)"
  let ?os = "remove_outcomes chan qid (targets hass call) (world e)"
  have l: "fst (for_entities (remove_from_queue_handler chan qid) (entities hass call) ([], ?e1)) = Inr () \<and>
         fst (snd (for_entities (remove_from_queue_handler chan qid) (entities hass call) ([], ?e1))) =
           [] @ with_removal RemoveRaised (remove_outcomes chan qid (entities hass call) (world ?e1))"
    by (rule remove_loop[OF assms(2)])
  have r: "fst (remove_from_queue_callback hass chan call e) =
           Inr (if return_response call
                then Some (RemoveFromQueueResponse (with_removal RemoveRaised ?os))
                else None)"
    using l assms(1)
    by (auto simp: remove_from_queue_callback_def async_exec_command_def targets_def
        remove_outcomes_filter split: prod.splits sum.splits)
  have d: "set (with_removal RemoveUnsuccessful ?os) \<inter> set (with_removal RemoveRaised ?os) = {}"
    if "distinct (map entity_id_of (targets hass call))"
  proof (rule with_removal_disjoint)
    show "distinct (map fst ?os)"
      using that by (simp add: remove_outcomes_ids targets_def)
  qed simp
  show ?thesis using r d by blast
qed

theorem remove_from_queue_response_witness:
  "map_of (data call_remove) ''queue_id'' = Some 2 \<and> heos_only chan_remove_mixed \<and>
   distinct (map entity_id_of (targets hass_abc call_remove)) \<and>
   fst (remove_from_queue_callback hass_abc chan_remove_mixed call_remove env0) =
     Inr (Some (RemoveFromQueueResponse [''media_player.a''])) \<and>
   fst (remove_from_queue_callback hass_abc chan_remove_mixed
          (call_remove\<lparr>return_response := False\<rparr>) env0) = Inr None \<and>
   set [''media_player.b''] \<inter> set [''media_player.a''] = {}"
proof -
  have h1: "map_of (data call_remove) ''queue_id'' = Some 2"
    by (simp add: call_remove_def)
  have h1': "map_of (data (call_remove\<lparr>return_response := False\<rparr>)) ''queue_id'' = Some 2"
    by (simp add: call_remove_def)
  have h2: "heos_only chan_remove_mixed"
    by (simp add: heos_only_def chan_remove_mixed_def)
  have h3: "distinct (map entity_id_of (targets hass_abc call_remove))"
    by (simp add: targets_abc player_a_def player_b_def player_c_def)
  have f: "remove_outcomes chan_remove_mixed 2 (targets hass_abc call_remove) (world env0) =
      [(''media_player.a'', RemoveRaised), (''media_player.b'', RemoveUnsuccessful),
       (''media_player.c'', Removed)]"
    by (simp add: targets_abc player_a_def player_b_def player_c_def chan_remove_mixed_def)
  show ?thesis
    using h1 h2 h3 remove_from_queue_response [OF h1 h2, of hass_abc env0, unfolded f]
      remove_from_queue_response [OF h1' h2, of hass_abc env0]
    by (simp add: call_remove_def with_removal_def)
qed

text \<open>
  C9. The resolved targets hold no device twice and are exactly the HEOS players that some
  HEOS platform yields for the call; no target is invoked twice, whatever the callback
  does; and a host that yields every entity once resolves to the same targets and makes the
  dispatch behave the same.
\<close>

theorem resolution_deduplicates:
  "distinct (targets hass call) \<and>
   set (targets hass call) =
     {e \<in> (\<Union>ep \<in> set (async_get_platforms hass ''heos''). set (ep call)). is_heos e} \<and>
   distinct (invocations hass call cb s) \<and>
   targets (deduplicated hass) call = targets hass call \<and>
   async_exec_command (deduplicated hass) call cb s = async_exec_command hass call cb s"
  using distinct_entities[of hass call] set_entities[of hass call] invocations_distinct[of hass call cb s]
  by (auto simp: targets_def async_exec_command_def entities_deduplicated)

text \<open>An example: two platforms that yield the same two players several times.\<close>

theorem resolution_deduplicates_example:
  "targets hass_twice call_plain = [player_a, player_b] \<and>
   invocations hass_twice call_plain (clear_queue_handler chan_ok) ((), env0) =
     [(''media_player.a'', 1, 0), (''media_player.b'', 2, 0)]"
proof -
  have e: "entities hass_twice call_plain = [player_a, player_b]"
    by (simp add: entities_def hass_twice_def async_get_platforms_def player_a_def player_b_def)
  have t: "targets hass_twice call_plain = [player_a, player_b]"
    by (simp add: targets_def e) (simp add: player_a_def player_b_def)
  have "fst (clear_queue_handler chan_ok eid pid c (s :: unit \<times> unit env)) = Inr ()" for eid pid c s
    by (simp add: clear_queue_handler_def command_def chan_ok_def)
  then have "invocations hass_twice call_plain (clear_queue_handler chan_ok) ((), env0) =
      map target_of (targets hass_twice call_plain)"
    using dispatch_total[of "clear_queue_handler chan_ok" hass_twice call_plain "((), env0)"] by simp
  then show ?thesis
    using t resolution_deduplicates [of hass_twice call_plain "clear_queue_handler chan_ok" "((), env0)"]
    by (simp add: target_of_def player_a_def player_b_def)
qed

text \<open>
  C10. Under the same two conditions, the aggregate of \<^verbatim>\<open>get_queue\<close> has a count equal
  to the number of keys of its map of queues, no key of the map is in its list of errors,
  and a player that answered with an unset result flag is neither a key of the map nor in
  the list of errors.
\<close>

theorem get_queue_aggregate_invariant:
  assumes "heos_only chan" and "distinct (map entity_id_of (targets hass call))"
  shows "\<exists>r. fst (get_queue_callback hass chan call e) = Inr (Some r) \<and>
           count r = card (fst ` set (queues r)) \<and>
           fst ` set (queues r) \<inter> set (errors r) = {} \<and>
           set (with_outcome Unsuccessful (get_queue_outcomes chan (targets hass call) (world e)))
             \<inter> (fst ` set (queues r) \<union> set (errors r)) = {}"
proof -
  let ?os = "get_queue_outcomes chan (targets hass call) (world e)"
  let ?r = "GetQueueResponse (length (fetched ?os)) (fetched ?os) (with_outcome Raised ?os)"
  have d: "distinct (map fst ?os)"
    using assms(2) by (simp add: outcomes_ids targets_def)
  have c: "length (fetched ?os) = card (fst ` set (fetched ?os))"
    using distinct_card[OF distinct_fetched[OF d]] by simp
  have j: "fst ` set (fetched ?os) \<inter> set (with_outcome Raised ?os) = {}"
    by (rule fetched_disjoint[OF d]) simp
  have u1: "fst ` set (fetched ?os) \<inter> set (with_outcome Unsuccessful ?os) = {}"
    by (rule fetched_disjoint[OF d]) simp
  have u2: "set (with_outcome Unsuccessful ?os) \<inter> set (with_outcome Raised ?os) = {}"
    by (rule with_outcome_disjoint[OF d]) simp
  have "fst (get_queue_callback hass chan call e) = Inr (Some ?r)"
    by (rule get_queue_callback_eq[OF assms])
  then show ?thesis using c j u1 u2 by (simp add: Int_Un_distrib Int_commute)
qed

theorem get_queue_aggregate_invariant_witness:
  "heos_only chan_mixed \<and> distinct (map entity_id_of (targets hass_abc call_plain)) \<and>
   (\<exists>r. fst (get_queue_callback hass_abc chan_mixed call_plain env0) = Inr (Some r) \<and>
        count r = card (fst ` set (queues r)) \<and>
        fst ` set (queues r) \<inter> set (errors r) = {} \<and>
        {''media_player.b''} \<inter> (fst ` set (queues r) \<union> set (errors r)) = {})"
proof -
  have h1: "heos_only chan_mixed"
    by (simp add: heos_only_def chan_mixed_def)
  have h2: "distinct (map entity_id_of (targets hass_abc call_plain))"
    by (simp add: targets_abc player_a_def player_b_def player_c_def)
  have os: "get_queue_outcomes chan_mixed (targets hass_abc call_plain) (world env0) =
      [(''media_player.a'', Raised), (''media_player.b'', Unsuccessful),
       (''media_player.c'', Fetched queue_12)]"
    by (simp add: targets_abc player_a_def player_b_def player_c_def chan_mixed_def)
  show ?thesis
    using h1 h2 get_queue_aggregate_invariant [OF h1 h2, of env0, unfolded os]
    by (simp add: with_outcome_def)
qed

end
